theory Spec2Isabelle
  imports Main "HOL-Library.Sublist"
begin

section \<open>Data model\<close>

text \<open>
  Go strings and byte slices are sequences of bytes; both are modelled by \<open>string\<close>
  (a list of 8-bit characters), so \<open>string(body)\<close> and \<open>[]byte(s)\<close> are the identity.
\<close>

type_synonym bytes = string

record MessagePart =
  Text :: string
  MimeType :: string
  Data :: string

record Message =
  Role :: string
  Parts :: "MessagePart list"

record ChatResponse =
  Response :: string
  ImageBase64 :: string
  Error :: string

section \<open>Library functions the program calls\<close>

text \<open>
  Functions of the Go standard library whose code is not part of the repository are
  parameters of the model: every theorem below holds for any behaviour of
  \<open>strings.ToLower\<close>, \<open>filepath.Ext\<close>, \<open>http.DetectContentType\<close>,
  \<open>json.Unmarshal\<close> (into \<open>[]Message\<close> and into \<open>map[string]interface{}\<close>),
  the \<open>%v\<close> verb of \<open>fmt\<close> on a decoded JSON value, and
  \<open>base64.StdEncoding.EncodeToString\<close>. The type \<open>'j\<close> stands for decoded JSON values.
\<close>

record 'j golib =
  ToLower :: "string \<Rightarrow> string"
  Ext :: "string \<Rightarrow> string"
  DetectContentType :: "bytes \<Rightarrow> string"
  UnmarshalMessages :: "string \<Rightarrow> string + Message list"
  UnmarshalObject :: "bytes \<Rightarrow> (string \<rightharpoonup> 'j) option"
  Sprint :: "'j \<Rightarrow> string"
  EncodeToString :: "bytes \<Rightarrow> string"

text \<open>\<open>strings.Contains\<close> and \<open>strings.HasPrefix\<close>: contiguous substring and prefix on bytes.\<close>

fun Contains :: "string \<Rightarrow> string \<Rightarrow> bool" where
  "Contains [] substr = (substr = [])"
| "Contains (c # s) substr = (prefix substr (c # s) \<or> Contains s substr)"

definition HasPrefix :: "string \<Rightarrow> string \<Rightarrow> bool" where
  "HasPrefix s p = prefix p s"

section \<open>Intent classifier\<close>

definition imageKeywords :: "string list" where
  "imageKeywords =
    [''buat gambar'', ''buatkan gambar'', ''generate image'', ''create image'',
     ''draw'', ''gambar'', ''lukis'', ''ilustrasi'', ''sketch'', ''photo'',
     ''picture'', ''image of'', ''make a picture'', ''make an image'']"

text \<open>The inner loop \<open>for _, keyword := range imageKeywords\<close> with its early \<open>return true\<close>.\<close>

fun anyKeyword :: "string list \<Rightarrow> string \<Rightarrow> bool" where
  "anyKeyword [] text = False"
| "anyKeyword (keyword # rest) text = (if Contains text keyword then True else anyKeyword rest text)"

text \<open>The loop over the parts of the last message.\<close>

fun anyPart :: "'j golib \<Rightarrow> MessagePart list \<Rightarrow> bool" where
  "anyPart lib [] = False"
| "anyPart lib (part # rest) =
     (if anyKeyword imageKeywords (ToLower lib (Text part)) then True else anyPart lib rest)"

definition detectImageGenerationRequest :: "'j golib \<Rightarrow> string \<Rightarrow> Message list \<Rightarrow> bool" where
  "detectImageGenerationRequest lib prompt messages =
     (if anyKeyword imageKeywords (ToLower lib prompt) then True
      else if length messages > 0 then anyPart lib (Parts (messages ! (length messages - 1)))
      else False)"

text \<open>What the properties call "contains a configured keyword": some keyword occurs in the text
  at some position.\<close>

definition mentions_keyword :: "string \<Rightarrow> bool" where
  "mentions_keyword text = (\<exists>k \<in> set imageKeywords. \<exists>before after. text = before @ k @ after)"

section \<open>The image-generation service\<close>

text \<open>
  One HTTP exchange of \<open>http.Client.Do\<close> followed by \<open>io.ReadAll\<close> of the body either
  fails in transport, or yields a status code and a body that was read or failed to be read.
\<close>

datatype read_result = Read_failed string | Read_ok bytes

datatype http_result = Do_failed string | Reply int read_result

text \<open>The payload \<open>map[string]interface{}\<close> that is sent as JSON.\<close>

datatype pvalue = PString string | PInt int | PDecimal int nat | PMap "(string \<times> pvalue) list"

type_synonym payload = "(string \<times> pvalue) list"

text \<open>
  A \<open>*http.Request\<close> is an object whose body is a reader: none, the buffer
  \<open>bytes.NewBuffer(jsonPayload)\<close> not yet read, or that buffer read to its end, in which
  state it yields no bytes while the request still declares the length of the payload.
\<close>

datatype request_body = No_body | Unread payload | Drained payload

record http_request =
  Method :: string
  URL :: string
  Header :: "(string \<times> string) list"
  Body :: request_body

text \<open>
  The parts and the response types of the \<open>genai\<close> client library, which is not part of
  the repository. \<open>genai_Text t\<close> is the part \<open>genai.Text(t)\<close>, and
  \<open>genai_ImageData format data\<close> is the part the call \<open>genai.ImageData(format, data)\<close>
  builds from its two arguments. \<open>Candidate.Content\<close> is declared as a pointer, which is
  nil when the upstream sent no content.
\<close>

datatype genai_part = genai_Text string | genai_ImageData string bytes | genai_FunctionCall string

record genai_Content =
  Content_Parts :: "genai_part list"

record Candidate =
  Content :: "genai_Content option"

record GenerateContentResponse =
  Candidates :: "Candidate list"

text \<open>
  The world outside the process. The image service answers the n-th HTTP exchange of a run
  with \<open>hf_replies n\<close>, whatever the request was, so that a world is an arbitrary sequence
  of upstream responses. The chat service is asked at most once per request and answers as
  a function of the call. The trace records every effect in the order it happens, each
  HTTP exchange with the reply it received.
\<close>

datatype event =
    Do nat http_request http_result
  | Sleep nat
  | GenerateContent_call string "genai_part list"

record world =
  hf_replies :: "nat \<Rightarrow> http_result"
  hf_calls :: nat
  genai_NewClient :: "string option"
  genai_GenerateContent :: "string \<Rightarrow> genai_part list \<Rightarrow> string + GenerateContentResponse"
  trace :: "event list"

text \<open>\<open>(&http.Client{Timeout: t}).Do(req)\<close> with the body read; the timeout is in seconds.\<close>

definition client_Do :: "nat \<Rightarrow> http_request \<Rightarrow> world \<Rightarrow> http_result \<times> world" where
  "client_Do timeout req w =
     (let r = hf_replies w (hf_calls w)
      in (r, w\<lparr>hf_calls := Suc (hf_calls w), trace := trace w @ [Do timeout req r]\<rparr>))"

definition time_Sleep :: "nat \<Rightarrow> world \<Rightarrow> world" where
  "time_Sleep seconds w = w\<lparr>trace := trace w @ [Sleep seconds]\<rparr>"

text \<open>
  \<open>json.Marshal\<close> returns no error on a map of strings, integers and finite floats, and
  \<open>http.NewRequestWithContext\<close> none on the methods and URLs built here; the model keeps
  the marshalled payload structured. The branches of the program on their errors are kept.
\<close>

definition json_Marshal :: "payload \<Rightarrow> string + payload" where
  "json_Marshal p = Inr p"

definition NewRequestWithContext :: "string \<Rightarrow> string \<Rightarrow> payload option \<Rightarrow> string + http_request" where
  "NewRequestWithContext method url body =
     Inr \<lparr>Method = method, URL = url, Header = [],
          Body = (case body of None \<Rightarrow> No_body | Some p \<Rightarrow> Unread p)\<rparr>"

text \<open>
  An exchange that brought a response has sent the request, so it has read the body
  buffer of the request to its end. The program keeps no other copy of the buffer and
  never rewinds it: a request object that is passed to \<open>Do\<close> a second time is in the
  state \<open>body_read\<close>.
\<close>

definition body_read :: "http_request \<Rightarrow> http_request" where
  "body_read req = req\<lparr>Body := (case Body req of Unread p \<Rightarrow> Drained p | b \<Rightarrow> b)\<rparr>"

definition Header_Set :: "string \<Rightarrow> string \<Rightarrow> http_request \<Rightarrow> http_request" where
  "Header_Set k v req = req\<lparr>Header := filter (\<lambda>kv. fst kv \<noteq> k) (Header req) @ [(k, v)]\<rparr>"

text \<open>The verb \<open>%d\<close> on a status code.\<close>

function decimal :: "nat \<Rightarrow> string" where
  "decimal n = (if n < 10 then [''0123456789'' ! n] else decimal (n div 10) @ [''0123456789'' ! (n mod 10)])"
  by pat_completeness auto
termination
  by (relation "measure id") auto

declare decimal.simps [simp del]

definition Itoa :: "int \<Rightarrow> string" where
  "Itoa i = (if i < 0 then CHR ''-'' # decimal (nat (- i)) else decimal (nat i))"

definition model_url :: "string \<Rightarrow> string" where
  "model_url model = ''https://api-inference.huggingface.co/models/'' @ model"

definition checkModelAvailability :: "string \<Rightarrow> string \<Rightarrow> world \<Rightarrow> bool \<times> world" where
  "checkModelAvailability apiKey model w =
     (case NewRequestWithContext ''GET'' (model_url model) None of
        Inl err \<Rightarrow> (False, w)
      | Inr req0 \<Rightarrow>
          (let req = Header_Set ''Authorization'' (''Bearer '' @ apiKey) req0
           in case client_Do 10 req w of
                (Do_failed err, w') \<Rightarrow> (False, w')
              | (Reply status body, w') \<Rightarrow> (status = 200, w')))"

definition models :: "string list" where
  "models =
    [''black-forest-labs/FLUX.1-dev'',
     ''black-forest-labs/FLUX.1-schnell'',
     ''stabilityai/stable-diffusion-xl-base-1.0'',
     ''stabilityai/sdxl-turbo'',
     ''Lykon/DreamShaper'',
     ''prompthero/openjourney'',
     ''nitrosocke/Arcane-Diffusion'',
     ''runwayml/stable-diffusion-v1-5'',
     ''CompVis/stable-diffusion-v1-4'',
     ''stabilityai/stable-diffusion-2-1'']"

text \<open>The probe loop: \<open>workingModel\<close> starts empty and the loop breaks at the first model
  whose availability check succeeds.\<close>

fun findWorkingModel :: "string \<Rightarrow> string list \<Rightarrow> world \<Rightarrow> string \<times> world" where
  "findWorkingModel apiKey [] w = ('''', w)"
| "findWorkingModel apiKey (model # rest) w =
     (case checkModelAvailability apiKey model w of
        (True, w') \<Rightarrow> (model, w')
      | (False, w') \<Rightarrow> findWorkingModel apiKey rest w')"

definition preferred :: "string \<Rightarrow> string" where
  "preferred workingModel = (if workingModel = '''' then models ! 0 else workingModel)"

definition modelsToTry :: "string \<Rightarrow> string list" where
  "modelsToTry workingModel = workingModel # filter (\<lambda>model. model \<noteq> workingModel) models"

text \<open>One pass of the generation loop ends with \<open>continue\<close> after recording \<open>lastError\<close>, or
  returns the encoded image.\<close>

datatype iteration = Continue string | Return string

definition build_payload :: "string \<Rightarrow> string \<Rightarrow> payload" where
  "build_payload model prompt =
     (if Contains model ''stable-diffusion'' \<or> Contains model ''sdxl''
      then [(''inputs'', PString prompt),
            (''parameters'', PMap [(''num_inference_steps'', PInt 25), (''guidance_scale'', PDecimal 75 1)])]
      else [(''inputs'', PString prompt)])"

text \<open>The checks every candidate reaches after the status-specific branches: the status,
  the JSON error object, the minimum length, and the encoding.\<close>

definition check_response :: "'j golib \<Rightarrow> string \<Rightarrow> int \<Rightarrow> bytes \<Rightarrow> iteration" where
  "check_response lib model status body =
     (if status \<noteq> 200
      then Continue (''API request failed for model '' @ model @ '' with status '' @ Itoa status @ '': '' @ body)
      else case (case UnmarshalObject lib body of None \<Rightarrow> None | Some errorResp \<Rightarrow> errorResp ''error'') of
             Some errorMsg \<Rightarrow> Continue (''model '' @ model @ '' returned error: '' @ Sprint lib errorMsg)
           | None \<Rightarrow>
               if length body < 100 then Continue (''response too short for model '' @ model)
               else Return (EncodeToString lib body))"

text \<open>
  The body of the generation loop for one model. The retry after a 503 calls \<open>Do\<close> on
  the request object of the first call, whose body buffer that call has read.
\<close>

definition tryModel :: "'j golib \<Rightarrow> string \<Rightarrow> string \<Rightarrow> string \<Rightarrow> world \<Rightarrow> iteration \<times> world" where
  "tryModel lib apiKey prompt model w =
     (case json_Marshal (build_payload model prompt) of
        Inl err \<Rightarrow> (Continue (''failed to marshal payload: '' @ err), w)
      | Inr jsonPayload \<Rightarrow>
     (case NewRequestWithContext ''POST'' (model_url model) (Some jsonPayload) of
        Inl err \<Rightarrow> (Continue (''failed to create request: '' @ err), w)
      | Inr req0 \<Rightarrow>
     (let req = Header_Set ''User-Agent'' ''GeminiChatApp/1.0''
                 (Header_Set ''Content-Type'' ''application/json''
                   (Header_Set ''Authorization'' (''Bearer '' @ apiKey) req0))
      in case client_Do 60 req w of
           (Do_failed err, w1) \<Rightarrow> (Continue (''failed to send request: '' @ err), w1)
         | (Reply status (Read_failed err), w1) \<Rightarrow>
             (Continue (''failed to read response body: '' @ err), w1)
         | (Reply status (Read_ok body), w1) \<Rightarrow>
             if status = 503 then
               (case client_Do 60 (body_read req) (time_Sleep 20 w1) of
                  (Do_failed err2, w2) \<Rightarrow> (Continue (''retry failed: '' @ err2), w2)
                | (Reply status2 (Read_failed err), w2) \<Rightarrow>
                    (Continue (''failed to read retry response: '' @ err), w2)
                | (Reply status2 (Read_ok body2), w2) \<Rightarrow>
                    (check_response lib model status2 body2, w2))
             else if status = 404 then (Continue (''model '' @ model @ '' not found''), w1)
             else if status = 401 then (Continue ''unauthorized - invalid API key'', w1)
             else if status = 429 then (Continue ''rate limit exceeded'', w1)
             else (check_response lib model status body, w1))))"

text \<open>The generation loop over \<open>modelsToTry\<close>, with the variable \<open>lastError\<close> (nil at first).
  It yields the image returned from inside the loop, if any, and the final \<open>lastError\<close>.\<close>

fun generateLoop ::
  "'j golib \<Rightarrow> string \<Rightarrow> string \<Rightarrow> string list \<Rightarrow> string option \<Rightarrow> world
     \<Rightarrow> string option \<times> string option \<times> world" where
  "generateLoop lib apiKey prompt [] lastError w = (None, lastError, w)"
| "generateLoop lib apiKey prompt (model # rest) lastError w =
     (case tryModel lib apiKey prompt model w of
        (Return imageBase64, w') \<Rightarrow> (Some imageBase64, lastError, w')
      | (Continue err, w') \<Rightarrow> generateLoop lib apiKey prompt rest (Some err) w')"

text \<open>The verb \<open>%v\<close> on an error value, which prints a nil error as \<open><nil>\<close>.\<close>

definition Sprint_error :: "string option \<Rightarrow> string" where
  "Sprint_error e = (case e of None \<Rightarrow> ''<nil>'' | Some msg \<Rightarrow> msg)"

definition generateImage :: "'j golib \<Rightarrow> string \<Rightarrow> string \<Rightarrow> world \<Rightarrow> (string + string) \<times> world" where
  "generateImage lib apiKey prompt w =
     (case findWorkingModel apiKey models w of
        (workingModel, w1) \<Rightarrow>
          (case generateLoop lib apiKey prompt (modelsToTry (preferred workingModel)) None w1 of
             (Some imageBase64, lastError, w2) \<Rightarrow> (Inr imageBase64, w2)
           | (None, lastError, w2) \<Rightarrow>
               (Inl (''all image generation models failed, last error: '' @ Sprint_error lastError), w2)))"

section \<open>The chat service\<close>

text \<open>A call of \<open>handleTextChat\<close> or \<open>handleImageChat\<close> returns a text, returns an error, or
  panics on the nil content pointer of a candidate.\<close>

datatype chat_result = Answer string | Failure string | Nil_dereference

definition GenerateContent ::
  "string \<Rightarrow> genai_part list \<Rightarrow> world \<Rightarrow> (string + GenerateContentResponse) \<times> world" where
  "GenerateContent name parts w =
     (genai_GenerateContent w name parts, w\<lparr>trace := trace w @ [GenerateContent_call name parts]\<rparr>)"

text \<open>The loop over the parts of the last message that stops at the first non-empty text;
  \<open>promptText\<close> stays empty when there is none.\<close>

fun firstText :: "MessagePart list \<Rightarrow> string" where
  "firstText [] = ''''"
| "firstText (part # rest) = (if Text part \<noteq> '''' then Text part else firstText rest)"

text \<open>The extraction both handlers end with: \<open>len(resp.Candidates) > 0 &&
  len(resp.Candidates[0].Content.Parts) > 0\<close>, then the type assertion on the first part,
  else the handler's fallback text.\<close>

definition extractText :: "string \<Rightarrow> GenerateContentResponse \<Rightarrow> chat_result" where
  "extractText fallback resp =
     (case Candidates resp of
        [] \<Rightarrow> Answer fallback
      | candidate # others \<Rightarrow>
          (case Content candidate of
             None \<Rightarrow> Nil_dereference
           | Some content \<Rightarrow>
               (case Content_Parts content of
                  [] \<Rightarrow> Answer fallback
                | genai_Text textPart # rest \<Rightarrow> Answer textPart
                | other # rest \<Rightarrow> Answer fallback)))"

definition handleTextChat :: "Message list \<Rightarrow> string \<Rightarrow> world \<Rightarrow> chat_result \<times> world" where
  "handleTextChat messages prompt w =
     (let promptText =
            (if prompt \<noteq> '''' then prompt
             else if length messages > 0 then firstText (Parts (messages ! (length messages - 1)))
             else '''')
      in if promptText = '''' then (Failure ''no text content to send to Gemini'', w)
         else case GenerateContent ''gemini-1.5-flash'' [genai_Text promptText] w of
                (Inl err, w') \<Rightarrow> (Failure (''failed to generate content: '' @ err), w')
              | (Inr resp, w') \<Rightarrow>
                  (extractText ''Maaf, saya tidak dapat menghasilkan respons saat ini.'' resp, w'))"

definition handleImageChat ::
  "Message list \<Rightarrow> bytes \<Rightarrow> string \<Rightarrow> string \<Rightarrow> world \<Rightarrow> chat_result \<times> world" where
  "handleImageChat messages imageData mimeType prompt w =
     (let parts =
            (if prompt \<noteq> '''' then [genai_Text prompt]
             else [genai_Text ''Analisis gambar ini dan jelaskan apa yang Anda lihat.''])
            @ [genai_ImageData mimeType imageData]
      in case GenerateContent ''gemini-1.5-flash'' parts w of
           (Inl err, w') \<Rightarrow> (Failure (''failed to generate content with image: '' @ err), w')
         | (Inr resp, w') \<Rightarrow>
             (extractText ''Maaf, saya tidak dapat menganalisis gambar ini.'' resp, w'))"

section \<open>The request dispatcher\<close>

text \<open>
  What the HTTP layer hands to \<open>handleChat\<close>: the method, the outcome of
  \<open>ParseMultipartForm\<close> (an error message when it fails), the form values \<open>messages\<close> and
  \<open>prompt\<close>, and the uploaded file \<open>image\<close> if \<open>FormFile\<close> found one, with its name and the
  outcome of reading it.
\<close>

record upload =
  Filename :: string
  ReadAll :: "string + bytes"

record chat_request =
  Request_Method :: string
  ParseMultipartForm :: "string option"
  FormValue_messages :: string
  FormValue_prompt :: string
  FormFile_image :: "upload option"

text \<open>What the handler leaves on the response writer: nothing, a status with one encoded
  \<open>ChatResponse\<close>, or a panic of the handler before anything was written.\<close>

datatype written = Nothing_written | Written int ChatResponse | Handler_panic

definition sendErrorResponse :: "string \<Rightarrow> int \<Rightarrow> written" where
  "sendErrorResponse errorMsg statusCode =
     Written statusCode \<lparr>Response = '''', ImageBase64 = '''', Error = errorMsg\<rparr>"

text \<open>The switch on the lower-cased file extension, with content sniffing as default.\<close>

definition detectMimeType :: "'j golib \<Rightarrow> string \<Rightarrow> bytes \<Rightarrow> string" where
  "detectMimeType lib filename imageData =
     (let ext = ToLower lib (Ext lib filename)
      in if ext = ''.jpg'' \<or> ext = ''.jpeg'' then ''image/jpeg''
         else if ext = ''.png'' then ''image/png''
         else if ext = ''.gif'' then ''image/gif''
         else if ext = ''.webp'' then ''image/webp''
         else (let mimeType = DetectContentType lib imageData
               in if \<not> HasPrefix mimeType ''image/'' then ''image/jpeg'' else mimeType))"

text \<open>The first half of \<open>handleChat\<close>, up to the logged MIME type: it ends the request with
  a response (left) or yields the messages, the prompt and the image with its MIME type.\<close>

definition parseRequest ::
  "'j golib \<Rightarrow> chat_request \<Rightarrow> written + (Message list \<times> string \<times> (bytes \<times> string) option)" where
  "parseRequest lib r =
     (if Request_Method r = ''OPTIONS'' then Inl Nothing_written
      else if Request_Method r \<noteq> ''POST'' then Inl (sendErrorResponse ''Method not allowed'' 405)
      else case ParseMultipartForm r of
        Some err \<Rightarrow> Inl (sendErrorResponse (''Failed to parse form data: '' @ err) 400)
      | None \<Rightarrow>
          if FormValue_messages r = '''' then Inl (sendErrorResponse ''Messages field is required'' 400)
          else case UnmarshalMessages lib (FormValue_messages r) of
            Inl err \<Rightarrow> Inl (sendErrorResponse (''Failed to parse messages JSON: '' @ err) 400)
          | Inr messages \<Rightarrow>
              (case FormFile_image r of
                 None \<Rightarrow> Inr (messages, FormValue_prompt r, None)
               | Some file \<Rightarrow>
                   (case ReadAll file of
                      Inl err \<Rightarrow> Inl (sendErrorResponse (''Failed to read image data: '' @ err) 400)
                    | Inr imageData \<Rightarrow>
                        Inr (messages, FormValue_prompt r,
                             Some (imageData, detectMimeType lib (Filename file) imageData)))))"

text \<open>The second half: classification, the invoked path, and the response.\<close>

definition dispatch ::
  "'j golib \<Rightarrow> string \<Rightarrow> string \<Rightarrow> Message list \<Rightarrow> string \<Rightarrow> (bytes \<times> string) option \<Rightarrow> world
     \<Rightarrow> written \<times> world" where
  "dispatch lib geminiAPIKey huggingFaceAPIKey messages prompt attached w =
     (if detectImageGenerationRequest lib prompt messages then
        (case generateImage lib huggingFaceAPIKey prompt w of
           (Inl err, w') \<Rightarrow> (sendErrorResponse (''Failed to generate image: '' @ err) 500, w')
         | (Inr imageBase64, w') \<Rightarrow>
             (Written 200 \<lparr>Response = ''Saya telah membuat gambar sesuai permintaan Anda!'',
                           ImageBase64 = imageBase64, Error = ''''\<rparr>, w'))
      else
        (case genai_NewClient w of
           Some err \<Rightarrow> (sendErrorResponse (''Failed to initialize Gemini client: '' @ err) 500, w)
         | None \<Rightarrow>
             (case (case attached of
                      Some (imageData, mimeType) \<Rightarrow> handleImageChat messages imageData mimeType prompt w
                    | None \<Rightarrow> handleTextChat messages prompt w) of
                (Failure err, w') \<Rightarrow>
                  (sendErrorResponse (''Failed to get response from Gemini: '' @ err) 500, w')
              | (Nil_dereference, w') \<Rightarrow> (Handler_panic, w')
              | (Answer response, w') \<Rightarrow>
                  (Written 200 \<lparr>Response = response, ImageBase64 = '''', Error = ''''\<rparr>, w'))))"

definition handleChat :: "'j golib \<Rightarrow> string \<Rightarrow> string \<Rightarrow> chat_request \<Rightarrow> world \<Rightarrow> written \<times> world" where
  "handleChat lib geminiAPIKey huggingFaceAPIKey r w =
     (case parseRequest lib r of
        Inl response \<Rightarrow> (response, w)
      | Inr (messages, prompt, attached) \<Rightarrow>
          dispatch lib geminiAPIKey huggingFaceAPIKey messages prompt attached w)"

section \<open>Notions used to state the properties\<close>

text \<open>The requests the program builds: the availability probe and the generation request
  of a model.\<close>

definition probe_request :: "string \<Rightarrow> string \<Rightarrow> http_request" where
  "probe_request apiKey model =
     \<lparr>Method = ''GET'', URL = model_url model,
      Header = [(''Authorization'', ''Bearer '' @ apiKey)], Body = No_body\<rparr>"

definition post_request :: "string \<Rightarrow> string \<Rightarrow> string \<Rightarrow> http_request" where
  "post_request apiKey prompt model =
     \<lparr>Method = ''POST'', URL = model_url model,
      Header = [(''Authorization'', ''Bearer '' @ apiKey), (''Content-Type'', ''application/json''),
                (''User-Agent'', ''GeminiChatApp/1.0'')],
      Body = Unread (build_payload model prompt)\<rparr>"

text \<open>The status of a reply, if there is one; a reply with status 503 whose body was read;
  a body that decodes to a JSON object with an \<open>error\<close> field; and a reply that can be
  returned as an image: status 200, a body of at least 100 bytes, no JSON error object.\<close>

definition status_of :: "http_result \<Rightarrow> int option" where
  "status_of r = (case r of Reply status body \<Rightarrow> Some status | Do_failed err \<Rightarrow> None)"

definition readable_503 :: "http_result \<Rightarrow> bool" where
  "readable_503 r = (case r of Reply status (Read_ok body) \<Rightarrow> status = 503 | _ \<Rightarrow> False)"

definition has_error_field :: "'j golib \<Rightarrow> bytes \<Rightarrow> bool" where
  "has_error_field lib body =
     (case UnmarshalObject lib body of None \<Rightarrow> False | Some obj \<Rightarrow> obj ''error'' \<noteq> None)"

definition usable :: "'j golib \<Rightarrow> http_result \<Rightarrow> bool" where
  "usable lib r =
     (case r of
        Reply status (Read_ok body) \<Rightarrow> status = 200 \<and> 100 \<le> length body \<and> \<not> has_error_field lib body
      | _ \<Rightarrow> False)"

definition body_of :: "http_result \<Rightarrow> bytes" where
  "body_of r = (case r of Reply status (Read_ok body) \<Rightarrow> body | _ \<Rightarrow> [])"

text \<open>The next two replies of a world decide one candidate: the reply that counts is the
  second one after a readable 503 and the first one otherwise, and the events of the
  attempt are one POST, or a POST, the cooldown and the retry.\<close>

definition final_reply :: "world \<Rightarrow> http_result" where
  "final_reply w =
     (if readable_503 (hf_replies w (hf_calls w)) then hf_replies w (Suc (hf_calls w))
      else hf_replies w (hf_calls w))"

definition attempt_events :: "string \<Rightarrow> string \<Rightarrow> string \<Rightarrow> world \<Rightarrow> event list" where
  "attempt_events apiKey prompt model w =
     (if readable_503 (hf_replies w (hf_calls w))
      then [Do 60 (post_request apiKey prompt model) (hf_replies w (hf_calls w)),
            Sleep 20,
            Do 60 (body_read (post_request apiKey prompt model)) (hf_replies w (Suc (hf_calls w)))]
      else [Do 60 (post_request apiKey prompt model) (hf_replies w (hf_calls w))])"

definition after_single :: "string \<Rightarrow> string \<Rightarrow> string \<Rightarrow> world \<Rightarrow> world" where
  "after_single apiKey prompt model w =
     w\<lparr>hf_calls := Suc (hf_calls w),
       trace := trace w @ [Do 60 (post_request apiKey prompt model) (hf_replies w (hf_calls w))]\<rparr>"

definition after_retry :: "string \<Rightarrow> string \<Rightarrow> string \<Rightarrow> world \<Rightarrow> world" where
  "after_retry apiKey prompt model w =
     w\<lparr>hf_calls := Suc (Suc (hf_calls w)),
       trace := trace w @
         [Do 60 (post_request apiKey prompt model) (hf_replies w (hf_calls w)),
          Sleep 20,
          Do 60 (body_read (post_request apiKey prompt model)) (hf_replies w (Suc (hf_calls w)))]\<rparr>"

text \<open>The POST exchanges of a trace, each as the URL and the reply received, the cooldowns
  of a trace, and the calls of the chat service in a trace.\<close>

fun posts :: "event list \<Rightarrow> (string \<times> http_result) list" where
  "posts [] = []"
| "posts (Do t req r # evs) = (if Method req = ''POST'' then (URL req, r) # posts evs else posts evs)"
| "posts (Sleep s # evs) = posts evs"
| "posts (GenerateContent_call name parts # evs) = posts evs"


fun chat_calls :: "event list \<Rightarrow> (string \<times> genai_part list) list" where
  "chat_calls [] = []"
| "chat_calls (GenerateContent_call name parts # evs) = (name, parts) # chat_calls evs"
| "chat_calls (Do t req r # evs) = chat_calls evs"
| "chat_calls (Sleep s # evs) = chat_calls evs"



text \<open>
  The effective prompt of \<open>handleTextChat\<close> in the words of the specification: the prompt
  argument if it is non-empty, else the first non-empty text of the parts of the last
  message; undefined when neither yields text.
\<close>

definition effective_prompt :: "Message list \<Rightarrow> string \<Rightarrow> string option" where
  "effective_prompt messages prompt =
     (if prompt \<noteq> '''' then Some prompt
      else if messages = [] then None
      else find (\<lambda>t. t \<noteq> '''') (map Text (Parts (last messages))))"

text \<open>The parts \<open>handleImageChat\<close> sends, and the responses without a usable text: no
  candidate, or a first candidate whose first part is not a text, be it that the candidate
  has no content, that its content has no parts, or that its first part is of another kind.\<close>

definition image_call_parts :: "string \<Rightarrow> string \<Rightarrow> bytes \<Rightarrow> genai_part list" where
  "image_call_parts prompt mimeType imageData =
     [genai_Text (if prompt \<noteq> '''' then prompt
                  else ''Analisis gambar ini dan jelaskan apa yang Anda lihat.''),
      genai_ImageData mimeType imageData]"

definition is_text :: "genai_part \<Rightarrow> bool" where
  "is_text part = (case part of genai_Text t \<Rightarrow> True | _ \<Rightarrow> False)"

definition no_text_first :: "GenerateContentResponse \<Rightarrow> bool" where
  "no_text_first resp =
     (case Candidates resp of
        [] \<Rightarrow> True
      | candidate # others \<Rightarrow>
          (case Content candidate of
             None \<Rightarrow> True
           | Some content \<Rightarrow>
               (case Content_Parts content of [] \<Rightarrow> True | part # rest \<Rightarrow> \<not> is_text part)))"

text \<open>The HTTP exchanges of a trace, and the response \<open>handleChat\<close> writes for the outcome
  of a chat handler.\<close>

fun exchanges :: "event list \<Rightarrow> (http_request \<times> http_result) list" where
  "exchanges [] = []"
| "exchanges (Do t req r # evs) = (req, r) # exchanges evs"
| "exchanges (Sleep s # evs) = exchanges evs"
| "exchanges (GenerateContent_call name parts # evs) = exchanges evs"

definition respond :: "chat_result \<times> world \<Rightarrow> written \<times> world" where
  "respond outcome =
     (case outcome of
        (Failure err, w') \<Rightarrow>
          (Written 500 \<lparr>Response = '''', ImageBase64 = '''',
                         Error = ''Failed to get response from Gemini: '' @ err\<rparr>, w')
      | (Nil_dereference, w') \<Rightarrow> (Handler_panic, w')
      | (Answer response, w') \<Rightarrow>
          (Written 200 \<lparr>Response = response, ImageBase64 = '''', Error = ''''\<rparr>, w'))"

text \<open>The try-order of a run that starts in a world: the list the generation loop ranges over.\<close>

definition try_order :: "string \<Rightarrow> world \<Rightarrow> string list" where
  "try_order apiKey w = modelsToTry (preferred (fst (findWorkingModel apiKey models w)))"

section \<open>A sample library and sample worlds\<close>

text \<open>
  To run the model on concrete inputs the library parameters are instantiated: lower-casing
  of ASCII letters, the extension after the last dot of the last path element, a content
  sniffer that knows the GIF signature, a decoder of the message list that accepts \<open>[]\<close>,
  a decoder of JSON objects that reads a body starting with an opening brace as an object
  with an \<open>error\<close> field, and an encoder that tags the body.
\<close>

definition ascii_lower :: "char \<Rightarrow> char" where
  "ascii_lower c =
     (case map_of (zip ''ABCDEFGHIJKLMNOPQRSTUVWXYZ'' ''abcdefghijklmnopqrstuvwxyz'') c of
        Some l \<Rightarrow> l | None \<Rightarrow> c)"

definition last_dot_ext :: "string \<Rightarrow> string" where
  "last_dot_ext path =
     (let name = takeWhile (\<lambda>c. c \<noteq> CHR ''/'') (rev path)
      in if CHR ''.'' \<in> set name then CHR ''.'' # rev (takeWhile (\<lambda>c. c \<noteq> CHR ''.'') name) else [])"

definition sample_lib :: "string golib" where
  "sample_lib =
     \<lparr>ToLower = map ascii_lower,
      Ext = last_dot_ext,
      DetectContentType = (\<lambda>data. if prefix ''GIF8'' data then ''image/gif'' else ''text/plain; charset=utf-8''),
      UnmarshalMessages = (\<lambda>s. if s = ''[]'' then Inr [] else Inl ''invalid character''),
      UnmarshalObject = (\<lambda>body. if body \<noteq> [] \<and> hd body = CHR ''{''
                                  then Some [''error'' \<mapsto> ''Model is loading''] else None),
      Sprint = (\<lambda>v. v),
      EncodeToString = (\<lambda>body. ''base64:'' @ body)\<rparr>"

text \<open>A world whose image service answers every exchange with the same reply, with a chat
  service that answers every call with one text candidate.\<close>

definition text_response :: "string \<Rightarrow> GenerateContentResponse" where
  "text_response t = \<lparr>Candidates = [\<lparr>Content = Some \<lparr>Content_Parts = [genai_Text t]\<rparr>\<rparr>]\<rparr>"

definition constant_world :: "http_result \<Rightarrow> world" where
  "constant_world r =
     \<lparr>hf_replies = (\<lambda>n. r), hf_calls = 0, genai_NewClient = None,
      genai_GenerateContent = (\<lambda>name parts. Inr (text_response ''Halo!'')), trace = []\<rparr>"


text \<open>A cold start: no probe is answered, the first generation request finds the model
  loading, and the retry returns 120 bytes. \<open>cold_world_after\<close> is the world such a run
  with key \<open>key\<close> and prompt \<open>draw a cat\<close> ends in.\<close>

definition image_bytes :: bytes where
  "image_bytes = replicate 120 CHR ''x''"

definition cold_world :: world where
  "cold_world =
     \<lparr>hf_replies = (\<lambda>n. if n < 10 then Do_failed ''timeout''
                          else if n = 10 then Reply 503 (Read_ok ''loading'')
                          else Reply 200 (Read_ok image_bytes)),
      hf_calls = 0, genai_NewClient = None,
      genai_GenerateContent = (\<lambda>name parts. Inr (text_response ''Halo!'')), trace = []\<rparr>"

definition cold_world_after :: world where
  "cold_world_after =
     cold_world
       \<lparr>hf_calls := 12,
        trace := map (\<lambda>model. Do 10 (probe_request ''key'' model) (Do_failed ''timeout'')) models @
                 [Do 60 (post_request ''key'' ''draw a cat'' (models ! 0)) (Reply 503 (Read_ok ''loading'')),
                  Sleep 20,
                  Do 60 (body_read (post_request ''key'' ''draw a cat'' (models ! 0)))
                     (Reply 200 (Read_ok image_bytes))]\<rparr>"

text \<open>A warm start: the third model is the first to answer its probe with 200 and then
  returns the image at once.\<close>

definition warm_world :: world where
  "warm_world =
     \<lparr>hf_replies = (\<lambda>n. if n < 2 then Reply 503 (Read_ok ''loading'')
                          else if n = 2 then Reply 200 (Read_ok '''')
                          else Reply 200 (Read_ok image_bytes)),
      hf_calls = 0, genai_NewClient = None,
      genai_GenerateContent = (\<lambda>name parts. Inr (text_response ''Halo!'')), trace = []\<rparr>"

definition warm_world_after :: world where
  "warm_world_after =
     warm_world
       \<lparr>hf_calls := 4,
        trace := [Do 10 (probe_request ''key'' (models ! 0)) (Reply 503 (Read_ok ''loading'')),
                  Do 10 (probe_request ''key'' (models ! 1)) (Reply 503 (Read_ok ''loading'')),
                  Do 10 (probe_request ''key'' (models ! 2)) (Reply 200 (Read_ok '''')),
                  Do 60 (post_request ''key'' ''draw a cat'' (models ! 2)) (Reply 200 (Read_ok image_bytes))]\<rparr>"



text \<open>Sample requests, messages and worlds: a text request, the same request asking for a
  drawing, a request with an uploaded file whose name ends in \<open>.PNG\<close>; a world whose chat
  client cannot be created, one whose chat service answers without candidates, and one
  whose image service never answers.\<close>

definition plain_request :: chat_request where
  "plain_request =
     \<lparr>Request_Method = ''POST'', ParseMultipartForm = None, FormValue_messages = ''[]'',
      FormValue_prompt = ''halo'', FormFile_image = None\<rparr>"

definition photo_request :: chat_request where
  "photo_request =
     \<lparr>Request_Method = ''POST'', ParseMultipartForm = None, FormValue_messages = ''[]'',
      FormValue_prompt = ''Apa ini?'',
      FormFile_image = Some \<lparr>Filename = ''uploads/Kucing.PNG'', ReadAll = Inr ''GIF89a''\<rparr>\<rparr>"

definition offline_world :: world where
  "offline_world = (constant_world (Do_failed ''timeout''))\<lparr>genai_NewClient := Some ''no credentials''\<rparr>"

definition contentless_response :: GenerateContentResponse where
  "contentless_response = \<lparr>Candidates = [\<lparr>Content = None\<rparr>]\<rparr>"

definition blocked_world :: world where
  "blocked_world =
     (constant_world (Do_failed ''timeout''))
       \<lparr>genai_GenerateContent := (\<lambda>name parts. Inr contentless_response)\<rparr>"

definition empty_response :: GenerateContentResponse where
  "empty_response = \<lparr>Candidates = []\<rparr>"

definition mute_world :: world where
  "mute_world =
     (constant_world (Do_failed ''timeout''))\<lparr>genai_GenerateContent := (\<lambda>name parts. Inr empty_response)\<rparr>"

definition greeting :: Message where
  "greeting = \<lparr>Role = ''user'', Parts = [\<lparr>Text = '''', MimeType = ''image/png'', Data = ''iVBOR''\<rparr>,
                                          \<lparr>Text = ''halo'', MimeType = '''', Data = ''''\<rparr>]\<rparr>"

definition earlier :: Message where
  "earlier = \<lparr>Role = ''model'', Parts = [\<lparr>Text = ''Selamat pagi'', MimeType = '''', Data = ''''\<rparr>]\<rparr>"

definition draw_request :: chat_request where
  "draw_request = plain_request\<lparr>FormValue_prompt := ''draw a cat''\<rparr>"

definition quiet_world :: world where
  "quiet_world = constant_world (Do_failed ''timeout'')"

section \<open>Properties\<close>

subsection \<open>The intent classifier\<close>

lemma Contains_iff: "Contains s sub \<longleftrightarrow> (\<exists>before after. s = before @ sub @ after)"
proof (induction s)
  case Nil
  then show ?case by auto
next
  case (Cons c s)
  have "Contains (c # s) sub \<longleftrightarrow> prefix sub (c # s) \<or> sublist sub s"
    using Cons.IH by (simp add: sublist_def)
  also have "\<dots> \<longleftrightarrow> sublist sub (c # s)"
    by (simp add: sublist_Cons_right)
  finally show ?case by (simp add: sublist_def)
qed

lemma anyKeyword_iff: "anyKeyword ks text \<longleftrightarrow> (\<exists>k \<in> set ks. Contains text k)"
  by (induction ks) auto

lemma anyKeyword_mentions: "anyKeyword imageKeywords text \<longleftrightarrow> mentions_keyword text"
  by (simp add: anyKeyword_iff mentions_keyword_def Contains_iff)

lemma anyPart_iff:
  "anyPart lib ps \<longleftrightarrow> (\<exists>part \<in> set ps. mentions_keyword (ToLower lib (Text part)))"
  by (induction ps) (auto simp: anyKeyword_mentions)

text \<open>
  C4. The classifier answers true exactly when the lower-cased prompt contains a configured
  keyword at some position, or the lower-cased text of some part of the most recent message
  of the history does; otherwise (neither contains one, or the history is empty and the
  prompt contains none) it answers false.
\<close>

theorem detectImageGenerationRequest_iff:
  "detectImageGenerationRequest lib prompt messages \<longleftrightarrow>
     mentions_keyword (ToLower lib prompt) \<or>
     (messages \<noteq> [] \<and> (\<exists>part \<in> set (Parts (last messages)). mentions_keyword (ToLower lib (Text part))))"
  by (auto simp: detectImageGenerationRequest_def anyKeyword_mentions anyPart_iff last_conv_nth)

theorem detectImageGenerationRequest_iff_witness:
  "detectImageGenerationRequest sample_lib ''Buatkan GAMBAR kucing'' []
   \<and> mentions_keyword (ToLower sample_lib ''Buatkan GAMBAR kucing'')
   \<and> \<not> detectImageGenerationRequest sample_lib ''Apa kabar?'' []
   \<and> \<not> mentions_keyword (ToLower sample_lib ''Apa kabar?'')"
proof -
  have a: "detectImageGenerationRequest sample_lib ''Buatkan GAMBAR kucing'' []"
    by (simp add: detectImageGenerationRequest_def sample_lib_def ascii_lower_def imageKeywords_def)
  have b: "\<not> detectImageGenerationRequest sample_lib ''Apa kabar?'' []"
    by (simp add: detectImageGenerationRequest_def sample_lib_def ascii_lower_def imageKeywords_def)
  show ?thesis
    using a b detectImageGenerationRequest_iff[of sample_lib "''Buatkan GAMBAR kucing''" "[]"]
      detectImageGenerationRequest_iff[of sample_lib "''Apa kabar?''" "[]"]
    by simp
qed


subsection \<open>One candidate of the generation loop\<close>

lemma request_built:
  "Header_Set ''User-Agent'' ''GeminiChatApp/1.0''
     (Header_Set ''Content-Type'' ''application/json''
       (Header_Set ''Authorization'' (''Bearer '' @ apiKey)
         \<lparr>Method = ''POST'', URL = model_url model, Header = [], Body = Unread (build_payload model prompt)\<rparr>))
   = post_request apiKey prompt model"
  by (simp add: Header_Set_def post_request_def)

lemma tryModel_unfold:
  "tryModel lib apiKey prompt model w =
     (let req = post_request apiKey prompt model
      in case client_Do 60 req w of
           (Do_failed err, w1) \<Rightarrow> (Continue (''failed to send request: '' @ err), w1)
         | (Reply status (Read_failed err), w1) \<Rightarrow>
             (Continue (''failed to read response body: '' @ err), w1)
         | (Reply status (Read_ok body), w1) \<Rightarrow>
             if status = 503 then
               (case client_Do 60 (body_read req) (time_Sleep 20 w1) of
                  (Do_failed err2, w2) \<Rightarrow> (Continue (''retry failed: '' @ err2), w2)
                | (Reply status2 (Read_failed err), w2) \<Rightarrow>
                    (Continue (''failed to read retry response: '' @ err), w2)
                | (Reply status2 (Read_ok body2), w2) \<Rightarrow>
                    (check_response lib model status2 body2, w2))
             else if status = 404 then (Continue (''model '' @ model @ '' not found''), w1)
             else if status = 401 then (Continue ''unauthorized - invalid API key'', w1)
             else if status = 429 then (Continue ''rate limit exceeded'', w1)
             else (check_response lib model status body, w1))"
  unfolding tryModel_def json_Marshal_def NewRequestWithContext_def sum.case option.case request_built
  by (rule refl)

lemma tryModel_world:
  "snd (tryModel lib apiKey prompt model w) =
     (if readable_503 (hf_replies w (hf_calls w)) then after_retry apiKey prompt model w
      else after_single apiKey prompt model w)"
  unfolding tryModel_unfold
  by (simp add: client_Do_def time_Sleep_def Let_def readable_503_def
         after_retry_def after_single_def
      split: http_result.splits read_result.splits)

lemma posts_append: "posts (xs @ ys) = posts xs @ posts ys"
  by (induction xs rule: posts.induct) auto

lemma tryModel_trace:
  "trace (snd (tryModel lib apiKey prompt model w)) = trace w @ attempt_events apiKey prompt model w"
  by (simp add: tryModel_world after_retry_def after_single_def attempt_events_def)

lemma tryModel_replies:
  "hf_replies (snd (tryModel lib apiKey prompt model w)) = hf_replies w"
  by (simp add: tryModel_world after_retry_def after_single_def)

lemma tryModel_verdict:
  "(fst (tryModel lib apiKey prompt model w) = Return img) \<longleftrightarrow>
     (usable lib (final_reply w) \<and> img = EncodeToString lib (body_of (final_reply w)))"
  unfolding tryModel_unfold
  apply (simp add: client_Do_def time_Sleep_def Let_def final_reply_def readable_503_def
      split: http_result.splits read_result.splits)
  apply (auto simp: usable_def body_of_def check_response_def has_error_field_def split: option.splits)
  done

lemma readable_503_not_usable: "readable_503 r \<Longrightarrow> \<not> usable lib r"
  by (auto simp: readable_503_def usable_def split: http_result.splits read_result.splits)

lemma model_url_inj [simp]: "model_url a = model_url b \<longleftrightarrow> a = b"
  by (simp add: model_url_def)

lemma body_read_endpoint [simp]:
  "Method (body_read req) = Method req" "URL (body_read req) = URL req" "Header (body_read req) = Header req"
  by (simp_all add: body_read_def)

lemma posts_attempt:
  "posts (attempt_events apiKey prompt model w) =
     (if readable_503 (hf_replies w (hf_calls w))
      then [(model_url model, hf_replies w (hf_calls w)), (model_url model, hf_replies w (Suc (hf_calls w)))]
      else [(model_url model, hf_replies w (hf_calls w))])"
  by (simp add: attempt_events_def post_request_def)

lemma last_attempt:
  "last (attempt_events apiKey prompt model w)
     = Do 60 (if readable_503 (hf_replies w (hf_calls w)) then body_read (post_request apiKey prompt model)
              else post_request apiKey prompt model)
          (final_reply w)"
  by (simp add: attempt_events_def final_reply_def)

lemma attempt_nonempty [simp]: "attempt_events apiKey prompt model w \<noteq> []"
  by (simp add: attempt_events_def)

lemma butlast_attempt_unusable:
  "r \<in> set (butlast (map snd (posts (attempt_events apiKey prompt model w)))) \<Longrightarrow> \<not> usable lib r"
  by (auto simp: posts_attempt readable_503_not_usable split: if_splits)

lemma attempt_unusable:
  "\<not> usable lib (final_reply w) \<Longrightarrow>
   r \<in> set (map snd (posts (attempt_events apiKey prompt model w))) \<Longrightarrow> \<not> usable lib r"
  by (auto simp: posts_attempt final_reply_def readable_503_not_usable split: if_splits)

lemma remdups_adj_attempt:
  "model_url model \<notin> set us \<Longrightarrow>
   remdups_adj (map fst (posts (attempt_events apiKey prompt model w)) @ us) = model_url model # remdups_adj us"
  by (cases us) (auto simp: posts_attempt)

lemma usable_Reply:
  "usable lib r \<Longrightarrow> \<exists>body. r = Reply 200 (Read_ok body) \<and> 100 \<le> length body \<and> \<not> has_error_field lib body
      \<and> body_of r = body"
  by (auto simp: usable_def body_of_def split: http_result.splits read_result.splits)

subsection \<open>The generation loop and the probe loop\<close>

lemma generateLoop_run:
  assumes "generateLoop lib k p ms le w = (res, le', w')" and "distinct ms"
  shows "\<exists>new n. trace w' = trace w @ new \<and> hf_replies w' = hf_replies w
      \<and> n \<le> length ms \<and> remdups_adj (map fst (posts new)) = map model_url (take n ms)
      \<and> (\<forall>r\<in>set (butlast (map snd (posts new))). \<not> usable lib r)
      \<and> (case res of
           Some img \<Rightarrow> 0 < n \<and> new \<noteq> [] \<and> posts new \<noteq> [] \<and>
              (\<exists>req body. last new = Do 60 req (Reply 200 (Read_ok body))
                 \<and> (req = post_request k p (ms ! (n - 1))
                      \<or> req = body_read (post_request k p (ms ! (n - 1))))
                 \<and> 100 \<le> length body \<and> \<not> has_error_field lib body \<and> img = EncodeToString lib body)
         | None \<Rightarrow> n = length ms \<and> (\<forall>r\<in>set (map snd (posts new)). \<not> usable lib r)
              \<and> (ms = [] \<longrightarrow> le' = le)
              \<and> (ms \<noteq> [] \<longrightarrow> (\<exists>c w0. tryModel lib k p (last ms) w0 = (Continue c, w') \<and> le' = Some c)))"
  using assms
proof (induction ms arbitrary: le w)
  case Nil
  then show ?case by (intro exI[of _ "[]"] exI[of _ 0]) auto
next
  case (Cons m rest)
  obtain out w1 where t: "tryModel lib k p m w = (out, w1)" by (cases "tryModel lib k p m w")
  let ?a = "attempt_events k p m w"
  have tr1: "trace w1 = trace w @ ?a" using tryModel_trace[of lib k p m w] t by simp
  have rp1: "hf_replies w1 = hf_replies w" using tryModel_replies[of lib k p m w] t by simp
  show ?case
  proof (cases out)
    case (Return img)
    with t Cons.prems have res: "res = Some img" "w' = w1" by auto
    from Return t have "usable lib (final_reply w)" "img = EncodeToString lib (body_of (final_reply w))"
      using tryModel_verdict[of lib k p m w img] by auto
    then obtain body where b: "final_reply w = Reply 200 (Read_ok body)" "100 \<le> length body"
        "\<not> has_error_field lib body" "img = EncodeToString lib body"
      using usable_Reply by metis
    have "remdups_adj (map fst (posts ?a)) = [model_url m]"
      using remdups_adj_attempt[of m "[]" k p w] by simp
    moreover have "posts ?a \<noteq> []" by (simp add: posts_attempt)
    ultimately show ?thesis
      using res tr1 rp1 b butlast_attempt_unusable[of _ k p m w lib] last_attempt[of k p m w]
      by (intro exI[of _ ?a] exI[of _ 1]) auto
  next
    case (Continue c)
    with t Cons.prems have loop: "generateLoop lib k p rest (Some c) w1 = (res, le', w')" by auto
    from Continue t have nu: "\<not> usable lib (final_reply w)"
      using tryModel_verdict[of lib k p m w] by auto
    from Cons.prems have d: "distinct rest" "m \<notin> set rest" by auto
    from Cons.IH[OF loop d(1)] obtain new n where ih:
      "trace w' = trace w1 @ new" "hf_replies w' = hf_replies w1" "n \<le> length rest"
      "remdups_adj (map fst (posts new)) = map model_url (take n rest)"
      "\<forall>r\<in>set (butlast (map snd (posts new))). \<not> usable lib r"
      "case res of
           Some img \<Rightarrow> 0 < n \<and> new \<noteq> [] \<and> posts new \<noteq> [] \<and>
              (\<exists>req body. last new = Do 60 req (Reply 200 (Read_ok body))
                 \<and> (req = post_request k p (rest ! (n - 1))
                      \<or> req = body_read (post_request k p (rest ! (n - 1))))
                 \<and> 100 \<le> length body \<and> \<not> has_error_field lib body \<and> img = EncodeToString lib body)
         | None \<Rightarrow> n = length rest \<and> (\<forall>r\<in>set (map snd (posts new)). \<not> usable lib r)
              \<and> (rest = [] \<longrightarrow> le' = Some c)
              \<and> (rest \<noteq> [] \<longrightarrow> (\<exists>c w0. tryModel lib k p (last rest) w0 = (Continue c, w') \<and> le' = Some c))"
      by blast
    have "set (map fst (posts new)) = set (map model_url (take n rest))"
      using ih(4) by (metis remdups_adj_set)
    then have "model_url m \<notin> set (map fst (posts new))"
      using d(2) by (auto dest: in_set_takeD)
    then have rd: "remdups_adj (map fst (posts (?a @ new))) = map model_url (take (Suc n) (m # rest))"
      using remdups_adj_attempt[of m "map fst (posts new)" k p w] ih(4) by (simp add: posts_append)
    have au: "\<forall>r\<in>set (map snd (posts ?a)). \<not> usable lib r"
      using attempt_unusable[OF nu] by blast
    have bl: "\<forall>r\<in>set (butlast (map snd (posts (?a @ new)))). \<not> usable lib r"
    proof (cases "posts new = []")
      case True
      then show ?thesis using butlast_attempt_unusable[of _ k p m w lib] by (simp add: posts_append)
    next
      case False
      then show ?thesis using au ih(5) by (auto simp: posts_append butlast_append)
    qed
    show ?thesis
    proof (cases res)
      case None
      with ih(6) have n: "n = length rest" "\<forall>r\<in>set (map snd (posts new)). \<not> usable lib r"
        "rest = [] \<longrightarrow> le' = Some c"
        "rest \<noteq> [] \<longrightarrow> (\<exists>c w0. tryModel lib k p (last rest) w0 = (Continue c, w') \<and> le' = Some c)"
        by auto
      have last: "\<exists>c w0. tryModel lib k p (last (m # rest)) w0 = (Continue c, w') \<and> le' = Some c"
      proof (cases "rest = []")
        case True
        with loop n(3) have "w' = w1" "le' = Some c" by auto
        with t Continue True show ?thesis by auto
      next
        case False
        with n(4) show ?thesis by auto
      qed
      show ?thesis
        using None n(1,2) au rd bl last ih(1,2) tr1 rp1
        by (intro exI[of _ "?a @ new"] exI[of _ "Suc n"]) (auto simp: posts_append)
    next
      case (Some img)
      with ih(6) obtain req body where s: "0 < n" "new \<noteq> []" "posts new \<noteq> []"
        "last new = Do 60 req (Reply 200 (Read_ok body))"
        "req = post_request k p (rest ! (n - 1)) \<or> req = body_read (post_request k p (rest ! (n - 1)))"
        "100 \<le> length body" "\<not> has_error_field lib body" "img = EncodeToString lib body"
        by auto
      show ?thesis
        using Some s rd bl ih(1,2,3) tr1 rp1
        by (intro exI[of _ "?a @ new"] exI[of _ "Suc n"]) (auto simp: posts_append)
    qed
  qed
qed

lemma checkModelAvailability_eq:
  "checkModelAvailability apiKey model w =
     (status_of (hf_replies w (hf_calls w)) = Some 200,
      w\<lparr>hf_calls := Suc (hf_calls w),
        trace := trace w @ [Do 10 (probe_request apiKey model) (hf_replies w (hf_calls w))]\<rparr>)"
  by (simp add: checkModelAvailability_def NewRequestWithContext_def Header_Set_def client_Do_def
        Let_def status_of_def probe_request_def split: http_result.splits)

lemma findWorkingModel_run:
  "findWorkingModel apiKey ms w = (wm, w1) \<Longrightarrow>
   \<exists>probes. trace w1 = trace w @ probes \<and> hf_replies w1 = hf_replies w
     \<and> hf_calls w1 = hf_calls w + length probes \<and> posts probes = []
     \<and> (\<forall>j<length probes. probes ! j = Do 10 (probe_request apiKey (ms ! j)) (hf_replies w (hf_calls w + j)))
     \<and> ((\<exists>i<length ms. length probes = Suc i \<and> status_of (hf_replies w (hf_calls w + i)) = Some 200
            \<and> (\<forall>j<i. status_of (hf_replies w (hf_calls w + j)) \<noteq> Some 200) \<and> wm = ms ! i)
         \<or> (length probes = length ms \<and> (\<forall>j<length ms. status_of (hf_replies w (hf_calls w + j)) \<noteq> Some 200)
            \<and> wm = ''''))"
proof (induction ms arbitrary: w)
  case Nil
  then show ?case by auto
next
  case (Cons m rest)
  let ?r = "hf_replies w (hf_calls w)"
  let ?e = "Do 10 (probe_request apiKey m) ?r"
  let ?w = "w\<lparr>hf_calls := Suc (hf_calls w), trace := trace w @ [?e]\<rparr>"
  show ?case
  proof (cases "status_of ?r = Some 200")
    case True
    with Cons.prems have "wm = m" "w1 = ?w" by (auto simp: checkModelAvailability_eq)
    with True show ?thesis
      by (intro exI[of _ "[?e]"]) (auto simp: probe_request_def)
  next
    case False
    with Cons.prems have "findWorkingModel apiKey rest ?w = (wm, w1)"
      by (auto simp: checkModelAvailability_eq)
    from Cons.IH[OF this] obtain probes where ih:
      "trace w1 = trace w @ ?e # probes" "hf_replies w1 = hf_replies w"
      "hf_calls w1 = Suc (hf_calls w) + length probes" "posts probes = []"
      "\<forall>j<length probes. probes ! j = Do 10 (probe_request apiKey (rest ! j)) (hf_replies w (Suc (hf_calls w) + j))"
      "(\<exists>i<length rest. length probes = Suc i \<and> status_of (hf_replies w (Suc (hf_calls w) + i)) = Some 200
            \<and> (\<forall>j<i. status_of (hf_replies w (Suc (hf_calls w) + j)) \<noteq> Some 200) \<and> wm = rest ! i)
         \<or> (length probes = length rest \<and> (\<forall>j<length rest. status_of (hf_replies w (Suc (hf_calls w) + j)) \<noteq> Some 200)
            \<and> wm = '''')"
      by auto
    have nth: "\<forall>j<length (?e # probes). (?e # probes) ! j
         = Do 10 (probe_request apiKey ((m # rest) ! j)) (hf_replies w (hf_calls w + j))"
      using ih(5) by (auto simp: nth_Cons split: nat.splits)
    have alt: "(\<exists>i<length (m # rest). length (?e # probes) = Suc i \<and> status_of (hf_replies w (hf_calls w + i)) = Some 200
            \<and> (\<forall>j<i. status_of (hf_replies w (hf_calls w + j)) \<noteq> Some 200) \<and> wm = (m # rest) ! i)
         \<or> (length (?e # probes) = length (m # rest)
            \<and> (\<forall>j<length (m # rest). status_of (hf_replies w (hf_calls w + j)) \<noteq> Some 200) \<and> wm = '''')"
      using ih(6)
    proof
      assume "\<exists>i<length rest. length probes = Suc i \<and> status_of (hf_replies w (Suc (hf_calls w) + i)) = Some 200
            \<and> (\<forall>j<i. status_of (hf_replies w (Suc (hf_calls w) + j)) \<noteq> Some 200) \<and> wm = rest ! i"
      then obtain i where i: "i < length rest" "length probes = Suc i"
        "status_of (hf_replies w (Suc (hf_calls w) + i)) = Some 200"
        "\<forall>j<i. status_of (hf_replies w (Suc (hf_calls w) + j)) \<noteq> Some 200" "wm = rest ! i" by blast
      have "\<forall>j<Suc i. status_of (hf_replies w (hf_calls w + j)) \<noteq> Some 200"
        using i(4) False by (auto simp: less_Suc_eq_0_disj)
      with i show ?thesis by (intro disjI1 exI[of _ "Suc i"]) auto
    next
      assume a: "length probes = length rest \<and> (\<forall>j<length rest. status_of (hf_replies w (Suc (hf_calls w) + j)) \<noteq> Some 200)
            \<and> wm = ''''"
      then have "\<forall>j<length (m # rest). status_of (hf_replies w (hf_calls w + j)) \<noteq> Some 200"
        using False by (auto simp: less_Suc_eq_0_disj)
      with a show ?thesis by (intro disjI2) auto
    qed
    show ?thesis
      using ih(1-4) nth alt
      by (intro exI[of _ "?e # probes"]) (simp add: probe_request_def)
  qed
qed

lemma distinct_models: "distinct models"
  by (simp add: models_def)

lemma models_nonempty_names: "'''' \<notin> set models"
  by (simp add: models_def)

lemma length_models: "length models = 10"
  by (simp add: models_def)

lemma filter_neq_nth:
  "distinct xs \<Longrightarrow> i < length xs \<Longrightarrow> filter (\<lambda>x. x \<noteq> xs ! i) xs = take i xs @ drop (Suc i) xs"
proof -
  assume d: "distinct xs" and i: "i < length xs"
  have xs: "xs = take i xs @ xs ! i # drop (Suc i) xs" using i by (rule id_take_nth_drop)
  have "distinct (take i xs @ xs ! i # drop (Suc i) xs)" using d xs by simp
  then have a: "xs ! i \<notin> set (take i xs)" and b: "xs ! i \<notin> set (drop (Suc i) xs)" by auto
  have fa: "filter (\<lambda>x. x \<noteq> xs ! i) (take i xs) = take i xs"
    using a by (simp add: filter_id_conv) metis
  have fb: "filter (\<lambda>x. x \<noteq> xs ! i) (drop (Suc i) xs) = drop (Suc i) xs"
    using b by (simp add: filter_id_conv) metis
  have "filter (\<lambda>x. x \<noteq> xs ! i) (take i xs @ xs ! i # drop (Suc i) xs) = take i xs @ drop (Suc i) xs"
    using fa fb by simp
  with xs show ?thesis by simp
qed

lemma modelsToTry_nth:
  "i < length models \<Longrightarrow> modelsToTry (models ! i) = models ! i # take i models @ drop (Suc i) models"
  by (simp add: modelsToTry_def filter_neq_nth distinct_models)

lemma distinct_modelsToTry: "distinct (modelsToTry m)"
  by (simp add: modelsToTry_def distinct_models)

text \<open>
  C1. A run of \<open>generateImage\<close> consists of the probes, which POST nothing, and the
  generation events. The POSTed URLs, retries merged, are the first \<open>n\<close> models of the
  try-order in order, and every reply to a POST before the last one is unusable. When an
  image is returned, the last event of the run is the POST to the \<open>n\<close>-th model of the
  try-order (the request as built, or the retry with its body read), its reply has status 200 and a body of at least 100 bytes that is no JSON object
  with an \<open>error\<close> field, and the image is the encoding of that body: no later candidate is
  contacted. When an error is returned, all models of the try-order were POSTed, no reply
  was usable, and the message ends with the cause recorded for the last model.
\<close>

theorem generateImage_first_usable:
  assumes "generateImage lib apiKey prompt w = (res, w')"
  shows "\<exists>probes gen n.
      trace w' = trace w @ probes @ gen \<and> posts probes = [] \<and>
      n \<le> length (try_order apiKey w) \<and>
      remdups_adj (map fst (posts gen)) = map model_url (take n (try_order apiKey w)) \<and>
      (\<forall>r\<in>set (butlast (map snd (posts gen))). \<not> usable lib r) \<and>
      (case res of
         Inr imageBase64 \<Rightarrow>
           0 < n \<and> gen \<noteq> [] \<and>
           (\<exists>req body. last gen = Do 60 req (Reply 200 (Read_ok body))
                 \<and> (req = post_request apiKey prompt (try_order apiKey w ! (n - 1))
                      \<or> req = body_read (post_request apiKey prompt (try_order apiKey w ! (n - 1))))
              \<and> 100 \<le> length body \<and> \<not> has_error_field lib body
              \<and> imageBase64 = EncodeToString lib body)
       | Inl err \<Rightarrow>
           n = length (try_order apiKey w) \<and>
           (\<forall>r\<in>set (map snd (posts gen)). \<not> usable lib r) \<and>
           (\<exists>cause w0. tryModel lib apiKey prompt (last (try_order apiKey w)) w0 = (Continue cause, w')
              \<and> err = ''all image generation models failed, last error: '' @ cause))"
proof -
  obtain wm w1 where f: "findWorkingModel apiKey models w = (wm, w1)"
    by (cases "findWorkingModel apiKey models w")
  let ?order = "modelsToTry (preferred wm)"
  have order: "try_order apiKey w = ?order" by (simp add: try_order_def f)
  obtain img le w2 where g: "generateLoop lib apiKey prompt ?order None w1 = (img, le, w2)"
    by (cases "generateLoop lib apiKey prompt ?order None w1")
  from findWorkingModel_run[OF f] obtain probes where
    p: "trace w1 = trace w @ probes" "posts probes = []" by blast
  from generateLoop_run[OF g distinct_modelsToTry] obtain gen n where
    r: "trace w2 = trace w1 @ gen" "n \<le> length ?order"
       "remdups_adj (map fst (posts gen)) = map model_url (take n ?order)"
       "\<forall>r\<in>set (butlast (map snd (posts gen))). \<not> usable lib r"
       "case img of
           Some img \<Rightarrow> 0 < n \<and> gen \<noteq> [] \<and> posts gen \<noteq> [] \<and>
              (\<exists>req body. last gen = Do 60 req (Reply 200 (Read_ok body))
                 \<and> (req = post_request apiKey prompt (?order ! (n - 1))
                      \<or> req = body_read (post_request apiKey prompt (?order ! (n - 1))))
                 \<and> 100 \<le> length body \<and> \<not> has_error_field lib body \<and> img = EncodeToString lib body)
         | None \<Rightarrow> n = length ?order \<and> (\<forall>r\<in>set (map snd (posts gen)). \<not> usable lib r)
              \<and> (?order = [] \<longrightarrow> le = None)
              \<and> (?order \<noteq> [] \<longrightarrow> (\<exists>c w0. tryModel lib apiKey prompt (last ?order) w0 = (Continue c, w2) \<and> le = Some c))"
    by blast
  have ne: "?order \<noteq> []" by (simp add: modelsToTry_def)
  show ?thesis
  proof (cases img)
    case None
    with assms f g have res: "res = Inl (''all image generation models failed, last error: '' @ Sprint_error le)"
      and w': "w' = w2" by (auto simp: generateImage_def)
    from None r(5) ne obtain c w0 where
      c: "n = length ?order" "\<forall>r\<in>set (map snd (posts gen)). \<not> usable lib r"
         "tryModel lib apiKey prompt (last ?order) w0 = (Continue c, w2)" "le = Some c"
      by auto
    show ?thesis
      unfolding order
      apply (rule exI[of _ probes], rule exI[of _ gen], rule exI[of _ n])
      using res w' c r(1-4) p by (auto simp: Sprint_error_def)
  next
    case (Some i)
    with assms f g have res: "res = Inr i" and w': "w' = w2" by (auto simp: generateImage_def)
    show ?thesis
      unfolding order
      apply (rule exI[of _ probes], rule exI[of _ gen], rule exI[of _ n])
      using res w' Some r p by auto
  qed
qed

lemma cold_run:
  "generateImage sample_lib ''key'' ''draw a cat'' cold_world = (Inr (''base64:'' @ image_bytes), cold_world_after)"
  by (simp add: generateImage_def models_def checkModelAvailability_eq status_of_def cold_world_def
        cold_world_after_def time_Sleep_def
        preferred_def modelsToTry_def tryModel_unfold client_Do_def check_response_def sample_lib_def
        image_bytes_def Let_def)

theorem generateImage_first_usable_witness:
  "generateImage sample_lib ''key'' ''draw a cat'' cold_world = (Inr (''base64:'' @ image_bytes), cold_world_after)
   \<and> (\<exists>probes gen n.
      trace cold_world_after = trace cold_world @ probes @ gen \<and> posts probes = [] \<and>
      n \<le> length (try_order ''key'' cold_world) \<and>
      remdups_adj (map fst (posts gen)) = map model_url (take n (try_order ''key'' cold_world)) \<and>
      (\<forall>r\<in>set (butlast (map snd (posts gen))). \<not> usable sample_lib r) \<and>
      (case (Inr (''base64:'' @ image_bytes) :: string + string) of
         Inr imageBase64 \<Rightarrow>
           0 < n \<and> gen \<noteq> [] \<and>
           (\<exists>req body. last gen = Do 60 req (Reply 200 (Read_ok body))
                 \<and> (req = post_request ''key'' ''draw a cat'' (try_order ''key'' cold_world ! (n - 1))
                      \<or> req = body_read (post_request ''key'' ''draw a cat'' (try_order ''key'' cold_world ! (n - 1))))
              \<and> 100 \<le> length body \<and> \<not> has_error_field sample_lib body
              \<and> imageBase64 = EncodeToString sample_lib body)
       | Inl err \<Rightarrow>
           n = length (try_order ''key'' cold_world) \<and>
           (\<forall>r\<in>set (map snd (posts gen)). \<not> usable sample_lib r) \<and>
           (\<exists>cause w0. tryModel sample_lib ''key'' ''draw a cat'' (last (try_order ''key'' cold_world)) w0
                          = (Continue cause, cold_world_after)
              \<and> err = ''all image generation models failed, last error: '' @ cause)))"
  using cold_run generateImage_first_usable[OF cold_run] by (rule conjI)


subsection \<open>The try-order\<close>

lemma preferred_found: "i < length models \<Longrightarrow> preferred (models ! i) = models ! i"
  using models_nonempty_names by (auto simp: preferred_def dest: nth_mem)

lemma preferred_none: "preferred '''' = models ! 0"
  by (simp add: preferred_def)

lemma hd_of_remdups_adj: "remdups_adj xs = y # ys \<Longrightarrow> xs \<noteq> [] \<and> hd xs = y"
  by (metis hd_remdups_adj list.sel(1) remdups_adj_Nil_iff list.distinct(1))

lemma generateLoop_order:
  assumes "generateLoop lib k p ms le w = (res, le', w')" and "distinct ms"
  shows "\<exists>new n. trace w' = trace w @ new \<and> n \<le> length ms
      \<and> remdups_adj (map fst (posts new)) = map model_url (take n ms) \<and> (ms \<noteq> [] \<longrightarrow> 0 < n)"
proof -
  from generateLoop_run[OF assms] obtain new n where
    r: "trace w' = trace w @ new" "n \<le> length ms"
       "remdups_adj (map fst (posts new)) = map model_url (take n ms)"
       "case res of Some img \<Rightarrow> 0 < n \<and> new \<noteq> [] \<and> posts new \<noteq> [] \<and>
              (\<exists>req body. last new = Do 60 req (Reply 200 (Read_ok body))
                 \<and> (req = post_request k p (ms ! (n - 1))
                      \<or> req = body_read (post_request k p (ms ! (n - 1))))
                 \<and> 100 \<le> length body \<and> \<not> has_error_field lib body \<and> img = EncodeToString lib body)
         | None \<Rightarrow> n = length ms \<and> (\<forall>r\<in>set (map snd (posts new)). \<not> usable lib r)
              \<and> (ms = [] \<longrightarrow> le' = le)
              \<and> (ms \<noteq> [] \<longrightarrow> (\<exists>c w0. tryModel lib k p (last ms) w0 = (Continue c, w') \<and> le' = Some c))"
    by blast
  have "ms \<noteq> [] \<longrightarrow> 0 < n" using r(4) by (cases res) auto
  with r(1-3) show ?thesis by blast
qed

text \<open>
  C3. In a run of \<open>generateImage\<close> the \<open>j\<close>-th probe is the GET for the \<open>j\<close>-th model of
  the fixed list. The preferred model is the first one whose probe has status 200, and the
  probes stop there; when no probe has status 200 all models were probed and the preferred
  model is the first of the list. The try-order is the preferred model followed by the
  models before it and the models after it in list order, and the generation phase POSTs
  along this order, starting with the preferred model.
\<close>

theorem generateImage_try_order:
  assumes "generateImage lib apiKey prompt w = (res, w')"
  shows "\<exists>i probes gen n.
      i < length models \<and>
      trace w' = trace w @ probes @ gen \<and>
      (\<forall>j<length probes. probes ! j
           = Do 10 (probe_request apiKey (models ! j)) (hf_replies w (hf_calls w + j))) \<and>
      ((length probes = Suc i \<and> status_of (hf_replies w (hf_calls w + i)) = Some 200
          \<and> (\<forall>j<i. status_of (hf_replies w (hf_calls w + j)) \<noteq> Some 200))
       \<or> (length probes = length models \<and> i = 0
          \<and> (\<forall>j<length models. status_of (hf_replies w (hf_calls w + j)) \<noteq> Some 200))) \<and>
      preferred (fst (findWorkingModel apiKey models w)) = models ! i \<and>
      try_order apiKey w = models ! i # take i models @ drop (Suc i) models \<and>
      0 < n \<and> n \<le> length models \<and>
      remdups_adj (map fst (posts gen)) = map model_url (take n (try_order apiKey w)) \<and>
      posts gen \<noteq> [] \<and> fst (hd (posts gen)) = model_url (models ! i)"
proof -
  obtain wm w1 where f: "findWorkingModel apiKey models w = (wm, w1)"
    by (cases "findWorkingModel apiKey models w")
  let ?order = "modelsToTry (preferred wm)"
  have order: "try_order apiKey w = ?order" by (simp add: try_order_def f)
  obtain img le w2 where g: "generateLoop lib apiKey prompt ?order None w1 = (img, le, w2)"
    by (cases "generateLoop lib apiKey prompt ?order None w1")
  have w': "w' = w2" using assms f g by (auto simp: generateImage_def split: option.splits)
  from findWorkingModel_run[OF f] obtain probes where
    p: "trace w1 = trace w @ probes"
       "\<forall>j<length probes. probes ! j = Do 10 (probe_request apiKey (models ! j)) (hf_replies w (hf_calls w + j))"
       "(\<exists>i<length models. length probes = Suc i \<and> status_of (hf_replies w (hf_calls w + i)) = Some 200
            \<and> (\<forall>j<i. status_of (hf_replies w (hf_calls w + j)) \<noteq> Some 200) \<and> wm = models ! i)
         \<or> (length probes = length models \<and> (\<forall>j<length models. status_of (hf_replies w (hf_calls w + j)) \<noteq> Some 200)
            \<and> wm = '''')"
    by blast
  from generateLoop_order[OF g distinct_modelsToTry] obtain gen n where
    r: "trace w2 = trace w1 @ gen" "n \<le> length ?order"
       "remdups_adj (map fst (posts gen)) = map model_url (take n ?order)"
       "?order \<noteq> [] \<longrightarrow> 0 < n"
    by blast
  obtain i where i: "i < length models" "preferred wm = models ! i"
      "(length probes = Suc i \<and> status_of (hf_replies w (hf_calls w + i)) = Some 200
          \<and> (\<forall>j<i. status_of (hf_replies w (hf_calls w + j)) \<noteq> Some 200))
       \<or> (length probes = length models \<and> i = 0
          \<and> (\<forall>j<length models. status_of (hf_replies w (hf_calls w + j)) \<noteq> Some 200))"
    using p(3)
  proof
    assume "\<exists>i<length models. length probes = Suc i \<and> status_of (hf_replies w (hf_calls w + i)) = Some 200
            \<and> (\<forall>j<i. status_of (hf_replies w (hf_calls w + j)) \<noteq> Some 200) \<and> wm = models ! i"
    then show ?thesis using that preferred_found by blast
  next
    assume "length probes = length models \<and> (\<forall>j<length models. status_of (hf_replies w (hf_calls w + j)) \<noteq> Some 200)
            \<and> wm = ''''"
    then show ?thesis using that[of 0] preferred_none by (simp add: length_models)
  qed
  have ord: "?order = models ! i # take i models @ drop (Suc i) models"
    using i(1,2) modelsToTry_nth by simp
  have len: "length ?order = length models" using i(1) by (simp add: ord)
  have npos: "0 < n" using r(4) ord by simp
  then obtain rest where "take n ?order = models ! i # rest"
    using ord by (cases n) auto
  then have "remdups_adj (map fst (posts gen)) = model_url (models ! i) # map model_url rest"
    using r(3) by simp
  from hd_of_remdups_adj[OF this] have hd: "posts gen \<noteq> []" "fst (hd (posts gen)) = model_url (models ! i)"
    by (auto simp: hd_map)
  show ?thesis
    unfolding order
    apply (rule exI[of _ i], rule exI[of _ probes], rule exI[of _ gen], rule exI[of _ n])
    using i ord npos r(1-3) len p(1,2) hd w' f by auto
qed

lemmas run_simps = generateImage_def models_def checkModelAvailability_eq status_of_def
        time_Sleep_def preferred_def modelsToTry_def tryModel_unfold client_Do_def check_response_def
        sample_lib_def image_bytes_def Let_def

lemma warm_run:
  "generateImage sample_lib ''key'' ''draw a cat'' warm_world = (Inr (''base64:'' @ image_bytes), warm_world_after)"
  by (simp add: run_simps warm_world_def warm_world_after_def)

theorem generateImage_try_order_witness:
  "generateImage sample_lib ''key'' ''draw a cat'' warm_world = (Inr (''base64:'' @ image_bytes), warm_world_after)
   \<and> (\<exists>i probes gen n.
      i < length models \<and>
      trace warm_world_after = trace warm_world @ probes @ gen \<and>
      (\<forall>j<length probes. probes ! j
           = Do 10 (probe_request ''key'' (models ! j)) (hf_replies warm_world (hf_calls warm_world + j))) \<and>
      ((length probes = Suc i \<and> status_of (hf_replies warm_world (hf_calls warm_world + i)) = Some 200
          \<and> (\<forall>j<i. status_of (hf_replies warm_world (hf_calls warm_world + j)) \<noteq> Some 200))
       \<or> (length probes = length models \<and> i = 0
          \<and> (\<forall>j<length models. status_of (hf_replies warm_world (hf_calls warm_world + j)) \<noteq> Some 200))) \<and>
      preferred (fst (findWorkingModel ''key'' models warm_world)) = models ! i \<and>
      try_order ''key'' warm_world = models ! i # take i models @ drop (Suc i) models \<and>
      0 < n \<and> n \<le> length models \<and>
      remdups_adj (map fst (posts gen)) = map model_url (take n (try_order ''key'' warm_world)) \<and>
      posts gen \<noteq> [] \<and> fst (hd (posts gen)) = model_url (models ! i))"
  using warm_run generateImage_try_order[OF warm_run] by (rule conjI)

subsection \<open>Cooldown and retry\<close>

lemma retry_body_drained:
  assumes "readable_503 (hf_replies w (hf_calls w))"
  shows "\<exists>req. trace (snd (tryModel lib apiKey prompt model w))
             = trace w @ [Do 60 (post_request apiKey prompt model) (hf_replies w (hf_calls w)),
                          Sleep 20,
                          Do 60 req (hf_replies w (Suc (hf_calls w)))]
           \<and> Body req = Drained (build_payload model prompt)
           \<and> Body (post_request apiKey prompt model) = Unread (build_payload model prompt)"
  using assms
  by (simp add: tryModel_trace attempt_events_def body_read_def post_request_def)











subsection \<open>The chat handlers\<close>

lemma firstText_find:
  "firstText parts = (case find (\<lambda>t. t \<noteq> '''') (map Text parts) of None \<Rightarrow> '''' | Some t \<Rightarrow> t)"
  by (induction parts) auto

lemma find_nonempty: "find (\<lambda>t. t \<noteq> '''') ts = Some t \<Longrightarrow> t \<noteq> ''''"
  by (induction ts) (auto split: if_splits)

lemma promptText_effective:
  "(if prompt \<noteq> '''' then prompt
    else if length messages > 0 then firstText (Parts (messages ! (length messages - 1)))
    else '''')
   = (case effective_prompt messages prompt of None \<Rightarrow> '''' | Some t \<Rightarrow> t)"
  by (simp add: effective_prompt_def firstText_find last_conv_nth)

lemma effective_nonempty: "effective_prompt messages prompt = Some t \<Longrightarrow> t \<noteq> ''''"
  by (auto simp: effective_prompt_def split: if_splits dest: find_nonempty)

lemma handleTextChat_effective:
  "handleTextChat messages prompt w =
     (case effective_prompt messages prompt of
        None \<Rightarrow> (Failure ''no text content to send to Gemini'', w)
      | Some t \<Rightarrow>
          (case genai_GenerateContent w ''gemini-1.5-flash'' [genai_Text t] of
             Inl err \<Rightarrow> Failure (''failed to generate content: '' @ err)
           | Inr resp \<Rightarrow> extractText ''Maaf, saya tidak dapat menghasilkan respons saat ini.'' resp,
           w\<lparr>trace := trace w @ [GenerateContent_call ''gemini-1.5-flash'' [genai_Text t]]\<rparr>))"
  unfolding handleTextChat_def promptText_effective
  by (auto simp: GenerateContent_def Let_def split: option.splits sum.splits dest: effective_nonempty)

text \<open>
  C6. When the effective prompt is undefined (an empty prompt argument and an empty history,
  or a last message without a non-empty text part) \<open>handleTextChat\<close> fails with the
  no-content error and leaves the world as it was: the chat service is not called.
  Otherwise its one effect is the call of the chat service with the effective prompt as the
  only part, which is the prompt argument when that is non-empty and else the first
  non-empty text of the last message.
\<close>

theorem handleTextChat_prompt_resolution:
  "case effective_prompt messages prompt of
     None \<Rightarrow> handleTextChat messages prompt w = (Failure ''no text content to send to Gemini'', w)
   | Some t \<Rightarrow>
       trace (snd (handleTextChat messages prompt w))
         = trace w @ [GenerateContent_call ''gemini-1.5-flash'' [genai_Text t]]"
  by (simp add: handleTextChat_effective split: option.splits)

lemma handleImageChat_eq:
  "handleImageChat messages imageData mimeType prompt w =
     (let parts = [genai_Text (if prompt \<noteq> '''' then prompt
                               else ''Analisis gambar ini dan jelaskan apa yang Anda lihat.''),
                   genai_ImageData mimeType imageData]
      in (case genai_GenerateContent w ''gemini-1.5-flash'' parts of
            Inl err \<Rightarrow> Failure (''failed to generate content with image: '' @ err)
          | Inr resp \<Rightarrow> extractText ''Maaf, saya tidak dapat menganalisis gambar ini.'' resp,
          w\<lparr>trace := trace w @ [GenerateContent_call ''gemini-1.5-flash'' parts]\<rparr>))"
  by (auto simp: handleImageChat_def GenerateContent_def Let_def split: sum.splits)

lemma extractText_no_text:
  "no_text_first resp \<Longrightarrow>
   extractText fallback resp =
     (case Candidates resp of
        [] \<Rightarrow> Answer fallback
      | candidate # others \<Rightarrow>
          (case Content candidate of None \<Rightarrow> Nil_dereference | Some content \<Rightarrow> Answer fallback))"
  by (auto simp: no_text_first_def is_text_def extractText_def
      split: list.splits option.splits genai_part.splits)

lemma blocked_reply:
  "genai_GenerateContent blocked_world name parts = Inr contentless_response"
  by (simp add: blocked_world_def constant_world_def)

text \<open>
  C9. Two histories with the same last message give the same result and the same world, hence
  the same call of the chat service; with a non-empty prompt argument any two histories do,
  and the call carries the prompt text alone.
\<close>

theorem handleTextChat_depends_on_last_message_only:
  "(messages1 \<noteq> [] \<and> messages2 \<noteq> [] \<and> last messages1 = last messages2
      \<longrightarrow> handleTextChat messages1 prompt w = handleTextChat messages2 prompt w)
   \<and> (prompt \<noteq> ''''
      \<longrightarrow> handleTextChat messages1 prompt w = handleTextChat messages2 prompt w
        \<and> trace (snd (handleTextChat messages1 prompt w))
            = trace w @ [GenerateContent_call ''gemini-1.5-flash'' [genai_Text prompt]])"
  by (simp add: handleTextChat_effective effective_prompt_def)

subsection \<open>The dispatcher\<close>

lemma chat_calls_append: "chat_calls (xs @ ys) = chat_calls xs @ chat_calls ys"
  by (induction xs rule: chat_calls.induct) auto

lemma exchanges_append: "exchanges (xs @ ys) = exchanges xs @ exchanges ys"
  by (induction xs rule: exchanges.induct) auto

lemma findWorkingModel_chat_calls:
  "chat_calls (trace (snd (findWorkingModel apiKey ms w))) = chat_calls (trace w)"
  by (induction ms arbitrary: w) (auto simp: checkModelAvailability_eq chat_calls_append split: bool.splits)

lemma tryModel_chat_calls:
  "chat_calls (trace (snd (tryModel lib apiKey prompt model w))) = chat_calls (trace w)"
  by (simp add: tryModel_trace chat_calls_append attempt_events_def)

lemma generateLoop_chat_calls:
  "chat_calls (trace (snd (snd (generateLoop lib apiKey prompt ms le w)))) = chat_calls (trace w)"
proof (induction ms arbitrary: le w)
  case Nil
  then show ?case by simp
next
  case (Cons m rest)
  obtain out w1 where t: "tryModel lib apiKey prompt m w = (out, w1)"
    by (cases "tryModel lib apiKey prompt m w")
  then have "chat_calls (trace w1) = chat_calls (trace w)"
    using tryModel_chat_calls[of lib apiKey prompt m w] by simp
  with t Cons.IH[of _ w1] show ?case by (cases out) auto
qed

lemma generateImage_chat_calls:
  "chat_calls (trace (snd (generateImage lib apiKey prompt w))) = chat_calls (trace w)"
proof -
  obtain wm w1 where f: "findWorkingModel apiKey models w = (wm, w1)"
    by (cases "findWorkingModel apiKey models w")
  obtain img le w2 where g: "generateLoop lib apiKey prompt (modelsToTry (preferred wm)) None w1 = (img, le, w2)"
    by (cases "generateLoop lib apiKey prompt (modelsToTry (preferred wm)) None w1")
  have "chat_calls (trace w1) = chat_calls (trace w)"
    using findWorkingModel_chat_calls[of apiKey models w] f by simp
  moreover have "chat_calls (trace w2) = chat_calls (trace w1)"
    using generateLoop_chat_calls[of lib apiKey prompt "modelsToTry (preferred wm)" None w1] g by simp
  ultimately show ?thesis using f g by (cases img) (simp_all add: generateImage_def)
qed

lemma handleChat_parsed:
  "parseRequest lib r = Inr (messages, prompt, attached) \<Longrightarrow>
   handleChat lib gk hk r w = dispatch lib gk hk messages prompt attached w"
  by (simp add: handleChat_def)

lemma dispatch_generate:
  "detectImageGenerationRequest lib prompt messages \<Longrightarrow>
   dispatch lib gk hk messages prompt attached w =
     (case generateImage lib hk prompt w of
        (Inr imageBase64, w') \<Rightarrow>
          (Written 200 \<lparr>Response = ''Saya telah membuat gambar sesuai permintaan Anda!'',
                        ImageBase64 = imageBase64, Error = ''''\<rparr>, w')
      | (Inl err, w') \<Rightarrow>
          (Written 500 \<lparr>Response = '''', ImageBase64 = '''',
                        Error = ''Failed to generate image: '' @ err\<rparr>, w'))"
  unfolding dispatch_def sendErrorResponse_def
  by (simp split: prod.splits sum.splits)

lemma dispatch_chat:
  "\<not> detectImageGenerationRequest lib prompt messages \<Longrightarrow>
   dispatch lib gk hk messages prompt attached w =
     (case genai_NewClient w of
        Some err \<Rightarrow>
          (Written 500 \<lparr>Response = '''', ImageBase64 = '''',
                        Error = ''Failed to initialize Gemini client: '' @ err\<rparr>, w)
      | None \<Rightarrow>
          respond (case attached of
                     Some (imageData, mimeType) \<Rightarrow> handleImageChat messages imageData mimeType prompt w
                   | None \<Rightarrow> handleTextChat messages prompt w))"
  unfolding dispatch_def respond_def sendErrorResponse_def
  by (simp split: option.splits)

lemma respond_exchanges: "exchanges (trace (snd (respond (out, w)))) = exchanges (trace w)"
  by (cases out) (simp_all add: respond_def)

lemma handleTextChat_exchanges: "exchanges (trace (snd (handleTextChat messages prompt w))) = exchanges (trace w)"
  by (simp add: handleTextChat_effective exchanges_append split: option.splits)

lemma handleImageChat_exchanges:
  "exchanges (trace (snd (handleImageChat messages imageData mimeType prompt w))) = exchanges (trace w)"
  by (simp add: handleImageChat_eq exchanges_append Let_def)

lemma dispatch_chat_exchanges:
  "\<not> detectImageGenerationRequest lib prompt messages \<Longrightarrow>
   exchanges (trace (snd (dispatch lib gk hk messages prompt attached w))) = exchanges (trace w)"
proof -
  assume d: "\<not> detectImageGenerationRequest lib prompt messages"
  show ?thesis
  proof (cases "genai_NewClient w")
    case (Some err)
    with d show ?thesis by (simp add: dispatch_chat)
  next
    case None
    show ?thesis
    proof (cases attached)
      case None
      obtain out w1 where h: "handleTextChat messages prompt w = (out, w1)"
        by (cases "handleTextChat messages prompt w")
      with handleTextChat_exchanges[of messages prompt w] have "exchanges (trace w1) = exchanges (trace w)"
        by simp
      with d \<open>genai_NewClient w = None\<close> None h respond_exchanges[of out w1] show ?thesis
        by (simp add: dispatch_chat)
    next
      case (Some a)
      obtain imageData mimeType where a: "a = (imageData, mimeType)" by (cases a)
      obtain out w1 where h: "handleImageChat messages imageData mimeType prompt w = (out, w1)"
        by (cases "handleImageChat messages imageData mimeType prompt w")
      with handleImageChat_exchanges[of messages imageData mimeType prompt w]
      have "exchanges (trace w1) = exchanges (trace w)" by simp
      with d \<open>genai_NewClient w = None\<close> Some a h respond_exchanges[of out w1] show ?thesis
        by (simp add: dispatch_chat)
    qed
  qed
qed

lemma dispatch_generate_chat_calls:
  "detectImageGenerationRequest lib prompt messages \<Longrightarrow>
   chat_calls (trace (snd (dispatch lib gk hk messages prompt attached w))) = chat_calls (trace w)"
  using generateImage_chat_calls[of lib hk prompt w]
  by (cases "generateImage lib hk prompt w") (auto simp: dispatch_generate split: sum.splits)

text \<open>
  C5, as amended. For a request that parsed, \<open>handleChat\<close> classifies first. On true it
  runs \<open>generateImage\<close>, answers 200 with the acknowledgement and the image on success and
  wraps the error otherwise, and never calls the chat service. On false it makes no HTTP
  exchange with the image service; when the chat client cannot be created it answers with
  that error and invokes neither handler; otherwise it invokes \<open>handleImageChat\<close> when a
  file was uploaded and \<open>handleTextChat\<close> when not, and wraps the result or the error.
\<close>

theorem handleChat_routing:
  assumes "parseRequest lib r = Inr (messages, prompt, attached)"
  shows
   "(detectImageGenerationRequest lib prompt messages \<longrightarrow>
       handleChat lib geminiAPIKey huggingFaceAPIKey r w =
         (case generateImage lib huggingFaceAPIKey prompt w of
            (Inr imageBase64, w') \<Rightarrow>
              (Written 200 \<lparr>Response = ''Saya telah membuat gambar sesuai permintaan Anda!'',
                            ImageBase64 = imageBase64, Error = ''''\<rparr>, w')
          | (Inl err, w') \<Rightarrow>
              (Written 500 \<lparr>Response = '''', ImageBase64 = '''',
                            Error = ''Failed to generate image: '' @ err\<rparr>, w'))
       \<and> chat_calls (trace (snd (handleChat lib geminiAPIKey huggingFaceAPIKey r w))) = chat_calls (trace w))
    \<and> (\<not> detectImageGenerationRequest lib prompt messages \<longrightarrow>
         exchanges (trace (snd (handleChat lib geminiAPIKey huggingFaceAPIKey r w))) = exchanges (trace w)
         \<and> (case genai_NewClient w of
              Some err \<Rightarrow>
                handleChat lib geminiAPIKey huggingFaceAPIKey r w =
                  (Written 500 \<lparr>Response = '''', ImageBase64 = '''',
                                Error = ''Failed to initialize Gemini client: '' @ err\<rparr>, w)
            | None \<Rightarrow>
                handleChat lib geminiAPIKey huggingFaceAPIKey r w =
                  respond (case attached of
                             Some (imageData, mimeType) \<Rightarrow> handleImageChat messages imageData mimeType prompt w
                           | None \<Rightarrow> handleTextChat messages prompt w)))"
proof -
  have h: "handleChat lib geminiAPIKey huggingFaceAPIKey r w
             = dispatch lib geminiAPIKey huggingFaceAPIKey messages prompt attached w"
    using assms by (rule handleChat_parsed)
  show ?thesis
    unfolding h
    using dispatch_generate[of lib prompt messages geminiAPIKey huggingFaceAPIKey attached w]
      dispatch_generate_chat_calls[of lib prompt messages geminiAPIKey huggingFaceAPIKey attached w]
      dispatch_chat[of lib prompt messages geminiAPIKey huggingFaceAPIKey attached w]
      dispatch_chat_exchanges[of lib prompt messages geminiAPIKey huggingFaceAPIKey attached w]
    by (cases "genai_NewClient w") simp_all
qed

text \<open>
  C10. The MIME type of an uploaded file starts with \<open>image/\<close>: the lower-cased extensions
  \<open>.jpg\<close>, \<open>.jpeg\<close>, \<open>.png\<close>, \<open>.gif\<close> and \<open>.webp\<close> have their fixed types, any other
  is sniffed from the content, and a sniffed type outside \<open>image/\<close> becomes
  \<open>image/jpeg\<close>. It is the value \<open>handleImageChat\<close> receives and hands to
  \<open>genai.ImageData\<close>.
\<close>

theorem uploaded_image_mime_type:
  assumes "parseRequest lib r = Inr (messages, prompt, Some (imageData, mimeType))"
  shows "HasPrefix mimeType ''image/''
       \<and> (\<exists>upl. FormFile_image r = Some upl \<and> ReadAll upl = Inr imageData \<and>
            (let ext = ToLower lib (Ext lib (Filename upl)); sniffed = DetectContentType lib imageData
             in mimeType =
                  (if ext = ''.jpg'' \<or> ext = ''.jpeg'' then ''image/jpeg''
                   else if ext = ''.png'' then ''image/png''
                   else if ext = ''.gif'' then ''image/gif''
                   else if ext = ''.webp'' then ''image/webp''
                   else if HasPrefix sniffed ''image/'' then sniffed
                   else ''image/jpeg'')))
       \<and> (\<not> detectImageGenerationRequest lib prompt messages \<and> genai_NewClient w = None \<longrightarrow>
            trace (snd (handleChat lib geminiAPIKey huggingFaceAPIKey r w))
              = trace w @ [GenerateContent_call ''gemini-1.5-flash''
                             (image_call_parts prompt mimeType imageData)])"
proof -
  from assms obtain upl where f: "FormFile_image r = Some upl" "ReadAll upl = Inr imageData"
      "mimeType = detectMimeType lib (Filename upl) imageData"
    by (auto simp: parseRequest_def split: if_splits option.splits sum.splits)
  have p: "HasPrefix mimeType ''image/''"
    unfolding f(3) by (simp add: detectMimeType_def Let_def HasPrefix_def)
  have m: "let ext = ToLower lib (Ext lib (Filename upl)); sniffed = DetectContentType lib imageData
             in mimeType =
                  (if ext = ''.jpg'' \<or> ext = ''.jpeg'' then ''image/jpeg''
                   else if ext = ''.png'' then ''image/png''
                   else if ext = ''.gif'' then ''image/gif''
                   else if ext = ''.webp'' then ''image/webp''
                   else if HasPrefix sniffed ''image/'' then sniffed
                   else ''image/jpeg'')"
    unfolding f(3) by (simp add: detectMimeType_def Let_def)
  have t: "\<not> detectImageGenerationRequest lib prompt messages \<and> genai_NewClient w = None \<longrightarrow>
            trace (snd (handleChat lib geminiAPIKey huggingFaceAPIKey r w))
              = trace w @ [GenerateContent_call ''gemini-1.5-flash''
                             (image_call_parts prompt mimeType imageData)]"
    using assms
    by (auto simp: handleChat_def dispatch_def handleImageChat_eq image_call_parts_def Let_def
        split: sum.splits chat_result.splits)
  from p f(1,2) m t show ?thesis by blast
qed

lemma parseRequest_Written:
  assumes "parseRequest lib r = Inl (Written status resp)"
  shows "status \<noteq> 200 \<and> Error resp \<noteq> '''' \<and> Response resp = '''' \<and> ImageBase64 resp = ''''"
  using assms
  by (auto simp: parseRequest_def sendErrorResponse_def split: if_splits option.splits sum.splits)

lemma dispatch_Written:
  assumes "dispatch lib gk hk messages prompt attached w = (Written status resp, w')"
  shows "(status \<noteq> 200 \<longrightarrow> Error resp \<noteq> '''' \<and> Response resp = '''' \<and> ImageBase64 resp = '''')
       \<and> (status = 200 \<longrightarrow> Error resp = '''')"
  using assms
  by (auto simp: dispatch_def sendErrorResponse_def
      split: if_splits prod.splits sum.splits option.splits chat_result.splits)

text \<open>
  C8. A \<open>ChatResponse\<close> written by \<open>handleChat\<close> never has both a non-empty error and a
  non-empty response: with a status other than 200 it has an error message, an empty
  response and no image; with status 200 its error is empty and it carries the response
  text of the invoked path.
\<close>

theorem ChatResponse_error_xor_response:
  assumes "handleChat lib geminiAPIKey huggingFaceAPIKey r w = (Written status resp, w')"
  shows "(Error resp = '''' \<or> Response resp = '''')
       \<and> (status \<noteq> 200 \<longrightarrow> Error resp \<noteq> '''' \<and> Response resp = '''' \<and> ImageBase64 resp = '''')
       \<and> (status = 200 \<longrightarrow> Error resp = '''')"
proof (cases "parseRequest lib r")
  case (Inl out)
  with assms have "parseRequest lib r = Inl (Written status resp)" by (simp add: handleChat_def)
  from parseRequest_Written[OF this] show ?thesis by auto
next
  case (Inr parsed)
  obtain messages prompt attached where p: "parsed = (messages, prompt, attached)" by (cases parsed)
  with Inr assms have "dispatch lib geminiAPIKey huggingFaceAPIKey messages prompt attached w = (Written status resp, w')"
    by (simp add: handleChat_def)
  from dispatch_Written[OF this] show ?thesis by auto
qed

subsection \<open>The chat handlers and the dispatcher on sample requests\<close>

lemma plain_parsed: "parseRequest sample_lib plain_request = Inr ([], ''halo'', None)"
  by (simp add: parseRequest_def plain_request_def sample_lib_def)

lemma photo_parsed:
  "parseRequest sample_lib photo_request = Inr ([], ''Apa ini?'', Some (''GIF89a'', ''image/png''))"
  by (simp add: parseRequest_def photo_request_def sample_lib_def detectMimeType_def last_dot_ext_def
        ascii_lower_def Let_def)

lemma halo_not_generation: "\<not> detectImageGenerationRequest sample_lib ''halo'' []"
  by (simp add: detectImageGenerationRequest_def sample_lib_def ascii_lower_def imageKeywords_def)

theorem handleTextChat_prompt_resolution_witness:
  "effective_prompt [earlier, greeting] '''' = Some ''halo''
   \<and> trace (snd (handleTextChat [earlier, greeting] '''' mute_world))
        = trace mute_world @ [GenerateContent_call ''gemini-1.5-flash'' [genai_Text ''halo'']]
   \<and> effective_prompt [] '''' = None
   \<and> handleTextChat [] '''' mute_world = (Failure ''no text content to send to Gemini'', mute_world)"
proof -
  have a: "effective_prompt [earlier, greeting] '''' = Some ''halo''"
    by (simp add: effective_prompt_def greeting_def)
  have b: "effective_prompt [] '''' = None"
    by (simp add: effective_prompt_def)
  have c: "trace (snd (handleTextChat [earlier, greeting] '''' mute_world))
        = trace mute_world @ [GenerateContent_call ''gemini-1.5-flash'' [genai_Text ''halo'']]"
    using handleTextChat_prompt_resolution[of "[earlier, greeting]" "''''" mute_world]
    unfolding a by simp
  have d: "handleTextChat [] '''' mute_world = (Failure ''no text content to send to Gemini'', mute_world)"
    using handleTextChat_prompt_resolution[of "[]" "''''" mute_world]
    unfolding b by simp
  from a c b d show ?thesis by blast
qed

theorem handleTextChat_depends_on_last_message_only_witness:
  "[earlier, greeting] \<noteq> [] \<and> [greeting] \<noteq> [] \<and> last [earlier, greeting] = last [greeting]
   \<and> handleTextChat [earlier, greeting] '''' mute_world = handleTextChat [greeting] '''' mute_world
   \<and> ''halo'' \<noteq> ''''
   \<and> handleTextChat [earlier, greeting] ''halo'' mute_world = handleTextChat [] ''halo'' mute_world
   \<and> trace (snd (handleTextChat [earlier, greeting] ''halo'' mute_world))
        = trace mute_world @ [GenerateContent_call ''gemini-1.5-flash'' [genai_Text ''halo'']]"
proof -
  have h1: "[earlier, greeting] \<noteq> [] \<and> [greeting] \<noteq> [] \<and> last [earlier, greeting] = last [greeting]"
    by simp
  have h2: "''halo'' \<noteq> ''''" by simp
  note t1 = handleTextChat_depends_on_last_message_only[of "[earlier, greeting]" "[greeting]" "''''" mute_world]
  note t2 = handleTextChat_depends_on_last_message_only[of "[earlier, greeting]" "[]" "''halo''" mute_world]
  from t1 h1 have c1: "handleTextChat [earlier, greeting] '''' mute_world = handleTextChat [greeting] '''' mute_world"
    by blast
  from t2 h2 have c2: "handleTextChat [earlier, greeting] ''halo'' mute_world = handleTextChat [] ''halo'' mute_world
   \<and> trace (snd (handleTextChat [earlier, greeting] ''halo'' mute_world))
        = trace mute_world @ [GenerateContent_call ''gemini-1.5-flash'' [genai_Text ''halo'']]"
    by blast
  from h1 h2 c1 c2 show ?thesis by blast
qed

lemma draw_parsed: "parseRequest sample_lib draw_request = Inr ([], ''draw a cat'', None)"
  by (simp add: parseRequest_def draw_request_def plain_request_def sample_lib_def)

lemma draw_is_generation: "detectImageGenerationRequest sample_lib ''draw a cat'' []"
  by (simp add: detectImageGenerationRequest_def sample_lib_def ascii_lower_def imageKeywords_def)

lemma question_not_generation: "\<not> detectImageGenerationRequest sample_lib ''Apa ini?'' []"
  by (simp add: detectImageGenerationRequest_def sample_lib_def ascii_lower_def imageKeywords_def)

lemma offline_run:
  "handleChat sample_lib ''gk'' ''key'' plain_request offline_world
     = (Written 500 \<lparr>Response = '''', ImageBase64 = '''',
                     Error = ''Failed to initialize Gemini client: no credentials''\<rparr>, offline_world)"
  using halo_not_generation
  by (simp add: handleChat_parsed[OF plain_parsed] dispatch_chat offline_world_def constant_world_def)

text \<open>
  C7 fails on the code. A response whose first candidate has no content has no candidate
  and no first part that is a text, so the fallback text is due; there both handlers
  dereference the nil content of the candidate and panic, and \<open>handleChat\<close> writes no
  response at all. (Without candidates, with a content without parts and with a first part
  of another kind the fallback text is returned: \<open>extractText_no_text\<close>.)
\<close>

theorem contentless_candidate_panics:
  "no_text_first contentless_response
   \<and> genai_GenerateContent blocked_world ''gemini-1.5-flash'' [genai_Text ''halo''] = Inr contentless_response
   \<and> fst (handleTextChat [] ''halo'' blocked_world) = Nil_dereference
   \<and> fst (handleTextChat [] ''halo'' blocked_world)
        \<noteq> Answer ''Maaf, saya tidak dapat menghasilkan respons saat ini.''
   \<and> genai_GenerateContent blocked_world ''gemini-1.5-flash''
        (image_call_parts ''halo'' ''image/png'' ''GIF89a'') = Inr contentless_response
   \<and> fst (handleImageChat [] ''GIF89a'' ''image/png'' ''halo'' blocked_world) = Nil_dereference
   \<and> fst (handleImageChat [] ''GIF89a'' ''image/png'' ''halo'' blocked_world)
        \<noteq> Answer ''Maaf, saya tidak dapat menganalisis gambar ini.''
   \<and> fst (handleChat sample_lib ''gk'' ''key'' plain_request blocked_world) = Handler_panic"
  using halo_not_generation
  by (simp add: handleChat_parsed[OF plain_parsed] dispatch_chat respond_def blocked_world_def
        constant_world_def
        no_text_first_def contentless_response_def blocked_reply[unfolded contentless_response_def]
        handleTextChat_effective effective_prompt_def handleImageChat_eq image_call_parts_def
        extractText_def Let_def)

theorem handleChat_routing_witness:
  "parseRequest sample_lib draw_request = Inr ([], ''draw a cat'', None)
   \<and> detectImageGenerationRequest sample_lib ''draw a cat'' []
   \<and> handleChat sample_lib ''gk'' ''key'' draw_request cold_world
        = (Written 200 \<lparr>Response = ''Saya telah membuat gambar sesuai permintaan Anda!'',
                        ImageBase64 = ''base64:'' @ image_bytes, Error = ''''\<rparr>, cold_world_after)
   \<and> chat_calls (trace (snd (handleChat sample_lib ''gk'' ''key'' draw_request cold_world)))
        = chat_calls (trace cold_world)
   \<and> parseRequest sample_lib plain_request = Inr ([], ''halo'', None)
   \<and> \<not> detectImageGenerationRequest sample_lib ''halo'' []
   \<and> genai_NewClient quiet_world = None
   \<and> handleChat sample_lib ''gk'' ''key'' plain_request quiet_world
        = respond (handleTextChat [] ''halo'' quiet_world)
   \<and> exchanges (trace (snd (handleChat sample_lib ''gk'' ''key'' plain_request quiet_world)))
        = exchanges (trace quiet_world)"
proof -
  note g = handleChat_routing[OF draw_parsed, of "''gk''" "''key''" cold_world]
  note c = handleChat_routing[OF plain_parsed, of "''gk''" "''key''" quiet_world]
  have n: "genai_NewClient quiet_world = None" by (simp add: quiet_world_def constant_world_def)
  from g draw_is_generation have g2:
    "chat_calls (trace (snd (handleChat sample_lib ''gk'' ''key'' draw_request cold_world)))
        = chat_calls (trace cold_world)"
    by blast
  from g draw_is_generation have
    "handleChat sample_lib ''gk'' ''key'' draw_request cold_world =
         (case generateImage sample_lib ''key'' ''draw a cat'' cold_world of
            (Inr imageBase64, w') \<Rightarrow>
              (Written 200 \<lparr>Response = ''Saya telah membuat gambar sesuai permintaan Anda!'',
                            ImageBase64 = imageBase64, Error = ''''\<rparr>, w')
          | (Inl err, w') \<Rightarrow>
              (Written 500 \<lparr>Response = '''', ImageBase64 = '''',
                            Error = ''Failed to generate image: '' @ err\<rparr>, w'))"
    by blast
  then have g1:
    "handleChat sample_lib ''gk'' ''key'' draw_request cold_world
        = (Written 200 \<lparr>Response = ''Saya telah membuat gambar sesuai permintaan Anda!'',
                        ImageBase64 = ''base64:'' @ image_bytes, Error = ''''\<rparr>, cold_world_after)"
    by (simp add: cold_run)
  from c halo_not_generation have c2:
    "exchanges (trace (snd (handleChat sample_lib ''gk'' ''key'' plain_request quiet_world)))
        = exchanges (trace quiet_world)"
    by blast
  from c halo_not_generation have
    "case genai_NewClient quiet_world of
       Some err \<Rightarrow>
         handleChat sample_lib ''gk'' ''key'' plain_request quiet_world =
           (Written 500 \<lparr>Response = '''', ImageBase64 = '''',
                         Error = ''Failed to initialize Gemini client: '' @ err\<rparr>, quiet_world)
     | None \<Rightarrow>
         handleChat sample_lib ''gk'' ''key'' plain_request quiet_world =
           respond (case None of
                      Some (imageData, mimeType) \<Rightarrow> handleImageChat [] imageData mimeType ''halo'' quiet_world
                    | None \<Rightarrow> handleTextChat [] ''halo'' quiet_world)"
    by blast
  then have c1:
    "handleChat sample_lib ''gk'' ''key'' plain_request quiet_world
        = respond (handleTextChat [] ''halo'' quiet_world)"
    unfolding n by simp
  from draw_parsed draw_is_generation g1 g2 plain_parsed halo_not_generation n c1 c2
  show ?thesis by blast
qed

text \<open>
  C5 as stated fails: for a parsed text request that is no generation request, in a world
  where the chat client cannot be created, \<open>handleChat\<close> answers with the client error and
  calls the chat service not at all, whereas \<open>handleTextChat\<close> would have called it.
\<close>

theorem chat_client_failure_counterexample:
  "parseRequest sample_lib plain_request = Inr ([], ''halo'', None)
   \<and> \<not> detectImageGenerationRequest sample_lib ''halo'' []
   \<and> handleChat sample_lib ''gk'' ''key'' plain_request offline_world
        = (Written 500 \<lparr>Response = '''', ImageBase64 = '''',
                        Error = ''Failed to initialize Gemini client: no credentials''\<rparr>, offline_world)
   \<and> handleChat sample_lib ''gk'' ''key'' plain_request offline_world
        \<noteq> respond (handleTextChat [] ''halo'' offline_world)
   \<and> chat_calls (trace (snd (handleChat sample_lib ''gk'' ''key'' plain_request offline_world))) = []
   \<and> chat_calls (trace (snd (handleTextChat [] ''halo'' offline_world)))
        = [(''gemini-1.5-flash'', [genai_Text ''halo''])]"
  using plain_parsed halo_not_generation
  by (simp add: offline_run)
     (simp add: handleTextChat_effective effective_prompt_def respond_def offline_world_def
        constant_world_def text_response_def extractText_def)

theorem ChatResponse_error_xor_response_witness:
  "handleChat sample_lib ''gk'' ''key'' plain_request offline_world
     = (Written 500 \<lparr>Response = '''', ImageBase64 = '''',
                     Error = ''Failed to initialize Gemini client: no credentials''\<rparr>, offline_world)
   \<and> Error \<lparr>Response = '''', ImageBase64 = '''',
              Error = ''Failed to initialize Gemini client: no credentials''\<rparr> \<noteq> ''''
   \<and> Response \<lparr>Response = '''', ImageBase64 = '''',
              Error = ''Failed to initialize Gemini client: no credentials''\<rparr> = ''''
   \<and> ImageBase64 \<lparr>Response = '''', ImageBase64 = '''',
              Error = ''Failed to initialize Gemini client: no credentials''\<rparr> = ''''"
  using offline_run ChatResponse_error_xor_response[OF offline_run] by simp

theorem uploaded_image_mime_type_witness:
  "parseRequest sample_lib photo_request = Inr ([], ''Apa ini?'', Some (''GIF89a'', ''image/png''))
   \<and> HasPrefix ''image/png'' ''image/''
   \<and> \<not> detectImageGenerationRequest sample_lib ''Apa ini?'' []
   \<and> genai_NewClient quiet_world = None
   \<and> trace (snd (handleChat sample_lib ''gk'' ''key'' photo_request quiet_world))
        = trace quiet_world @ [GenerateContent_call ''gemini-1.5-flash''
                                 (image_call_parts ''Apa ini?'' ''image/png'' ''GIF89a'')]"
proof -
  note t = uploaded_image_mime_type[OF photo_parsed, of quiet_world "''gk''" "''key''"]
  have n: "genai_NewClient quiet_world = None" by (simp add: quiet_world_def constant_world_def)
  from t have p: "HasPrefix ''image/png'' ''image/''" by blast
  from t question_not_generation n have c:
    "trace (snd (handleChat sample_lib ''gk'' ''key'' photo_request quiet_world))
        = trace quiet_world @ [GenerateContent_call ''gemini-1.5-flash''
                                 (image_call_parts ''Apa ini?'' ''image/png'' ''GIF89a'')]"
    by blast
  from photo_parsed p question_not_generation n c show ?thesis by blast
qed

end
